theory Spec2Isabelle
  imports Main "HOL-Library.Sublist"
begin

section \<open>Region catalog (app/regions.py)\<close>

text \<open>
  \<^verbatim>\<open>REGIONS\<close> is the module-level list of region codes, in the order of the source.
\<close>

definition REGIONS :: "string list" where
  "REGIONS =
    [''us-east-1'', ''us-east-2'', ''us-west-1'', ''us-west-2'',
     ''ap-southeast-5'', ''ap-south-1'', ''ap-northeast-3'', ''ap-northeast-2'',
     ''ap-southeast-1'', ''ap-southeast-2'', ''ap-northeast-1'',
     ''ca-central-1'', ''ca-west-1'',
     ''eu-central-1'', ''eu-west-1'', ''eu-west-2'', ''eu-west-3'', ''eu-north-1'',
     ''me-south-1'', ''me-central-1'',
     ''sa-east-1'']"

text \<open>
  \<^verbatim>\<open>get_regions(subset)\<close>: \<^verbatim>\<open>None\<close> gives a copy of the catalog; a list is filtered by
  membership in \<^verbatim>\<open>set(REGIONS)\<close>, in the order of the list.
\<close>

definition get_regions :: "string list option \<Rightarrow> string list" where
  "get_regions subset' =
     (case subset' of
        None \<Rightarrow> REGIONS
      | Some rs \<Rightarrow> filter (\<lambda>r. r \<in> set REGIONS) rs)"

text \<open>
  The idiom \<^verbatim>\<open>regions = regions or REGIONS\<close> of the three fleet scans: \<^verbatim>\<open>None\<close> and the
  empty list are both falsy.
\<close>

definition regions_or_REGIONS :: "string list option \<Rightarrow> string list" where
  "regions_or_REGIONS regions =
     (case regions of
        None \<Rightarrow> REGIONS
      | Some rs \<Rightarrow> (if rs = [] then REGIONS else rs))"


section \<open>Exceptions and Python helpers\<close>

text \<open>
  The source tells exceptions apart by class only: \<^verbatim>\<open>ClientError\<close> and
  \<^verbatim>\<open>NoCredentialsError\<close> are logged and re-raised by the reconcilers, and the per-region
  orchestrators catch \<^verbatim>\<open>Exception\<close>. \<open>OtherException\<close> stands for every other subclass of
  \<^verbatim>\<open>Exception\<close> (\<^verbatim>\<open>KeyError\<close>, \<^verbatim>\<open>MemoryError\<close>, botocore's transport errors, ...),
  \<open>BaseExceptionOnly\<close> for the subclasses of \<^verbatim>\<open>BaseException\<close> outside \<^verbatim>\<open>Exception\<close>
  (\<^verbatim>\<open>KeyboardInterrupt\<close>, \<^verbatim>\<open>SystemExit\<close>, \<^verbatim>\<open>GeneratorExit\<close>). \<open>exn_str\<close> is \<^verbatim>\<open>str(e)\<close>.
\<close>

datatype exn_class = ClientError | NoCredentialsError | OtherException | BaseExceptionOnly

datatype exn = Exn (exn_class: exn_class) (exn_str: string)

definition is_Exception :: "exn \<Rightarrow> bool" where
  "is_Exception e = (exn_class e \<noteq> BaseExceptionOnly)"

text \<open>
  The handlers of the three reconcilers,
  \<^verbatim>\<open>except ClientError as e: logger.exception(...); raise\<close> and
  \<^verbatim>\<open>except NoCredentialsError: logger.exception(...); raise\<close>: the exception that was caught
  is raised again, any other exception propagates. The log is the only effect and is not
  modelled.
\<close>

definition reraise_logged :: "exn \<Rightarrow> exn + 'a" where
  "reraise_logged e =
     (case exn_class e of
        ClientError \<Rightarrow> Inl e
      | NoCredentialsError \<Rightarrow> Inl e
      | _ \<Rightarrow> Inl e)"

text \<open>\<^verbatim>\<open>d.get(key, default)\<close> on a provider record whose key may be missing.\<close>

definition dict_get :: "'a option \<Rightarrow> 'a \<Rightarrow> 'a" where
  "dict_get v dflt = (case v of None \<Rightarrow> dflt | Some x \<Rightarrow> x)"

text \<open>Truth value of \<^verbatim>\<open>d.get(key)\<close> for a string-valued key: missing and empty are falsy.\<close>

definition truthy_str :: "string option \<Rightarrow> bool" where
  "truthy_str v = (case v of None \<Rightarrow> False | Some s \<Rightarrow> s \<noteq> [])"

text \<open>
  \<^verbatim>\<open>for x in xs: results.append(f(x))\<close> (and the list comprehension
  \<^verbatim>\<open>[f(x) for x in xs]\<close>) where \<open>f\<close> may raise: the first exception ends the loop.
\<close>

fun append_each :: "('a \<Rightarrow> exn + 'b) \<Rightarrow> 'a list \<Rightarrow> 'b list \<Rightarrow> exn + 'b list" where
  "append_each f [] results = Inr results"
| "append_each f (x # xs) results =
     (case f x of
        Inl e \<Rightarrow> Inl e
      | Inr y \<Rightarrow> append_each f xs (results @ [y]))"

section \<open>Console URLs\<close>

definition security_group_console_url :: "string \<Rightarrow> string \<Rightarrow> string" where
  "security_group_console_url region group_id =
     (''https://'' @ region @ ''.console.aws.amazon.com/ec2/home'')
     @ (''?region='' @ region @ ''#SecurityGroup:groupId='' @ group_id)"

definition elastic_ip_console_url :: "string \<Rightarrow> string \<Rightarrow> string" where
  "elastic_ip_console_url region allocation_id =
     (''https://'' @ region @ ''.console.aws.amazon.com/ec2/home'')
     @ (''?region='' @ region @ ''#ElasticIpDetails:AllocationId='' @ allocation_id)"

definition ebs_volume_console_url :: "string \<Rightarrow> string \<Rightarrow> string" where
  "ebs_volume_console_url region volume_id =
     (''https://'' @ region @ ''.console.aws.amazon.com/ec2/v2/home'')
     @ (''?region='' @ region @ ''#VolumeDetails:VolumeId='' @ volume_id)"

text \<open>
  The specification gives the three URLs as templates with \<^verbatim>\<open>{name}\<close> placeholders.
  \<open>render_template\<close> follows the specification's notation: it copies the template and
  replaces each \<^verbatim>\<open>{name}\<close> by the value bound to \<open>name\<close> (nothing when unbound). The second
  argument of \<open>render_from\<close> is the placeholder name read so far, if inside one.
\<close>

fun render_from :: "(string \<Rightarrow> string option) \<Rightarrow> string option \<Rightarrow> string \<Rightarrow> string" where
  "render_from env None [] = []"
| "render_from env (Some name) [] = CHR ''{'' # name"
| "render_from env None (c # cs) =
     (if c = CHR ''{'' then render_from env (Some []) cs
      else c # render_from env None cs)"
| "render_from env (Some name) (c # cs) =
     (if c = CHR ''}'' then dict_get (env name) [] @ render_from env None cs
      else render_from env (Some (name @ [c])) cs)"

definition render_template :: "string \<Rightarrow> (string \<Rightarrow> string option) \<Rightarrow> string" where
  "render_template template env = render_from env None template"

definition sg_url_template :: string where
  "sg_url_template =
     ''https://{region}.console.aws.amazon.com/ec2/home?region={region}#SecurityGroup:groupId={groupId}''"

definition eip_url_template :: string where
  "eip_url_template =
     ''https://{region}.console.aws.amazon.com/ec2/home?region={region}#ElasticIpDetails:AllocationId={allocationId}''"

definition ebs_url_template :: string where
  "ebs_url_template =
     ''https://{region}.console.aws.amazon.com/ec2/v2/home?region={region}#VolumeDetails:VolumeId={volumeId}''"

section \<open>Provider records and the regional client\<close>

text \<open>
  The provider's responses are dictionaries; every key the source reads with \<^verbatim>\<open>.get\<close> is an
  optional field (\<open>None\<close>: the key is missing). Keys the source never reads are left out.
  A value that is present has the type of botocore's EC2 response shape for its key:
  identifiers, names and types are strings, \<^verbatim>\<open>Size\<close> is an integer, and \<^verbatim>\<open>CreateTime\<close> is a
  \<^verbatim>\<open>datetime\<close>, since botocore parses every timestamp of a response before the source sees
  it.
\<close>

record security_group =
  sg_GroupId :: "string option"
  sg_GroupName :: "string option"
  sg_Description :: "string option"
  sg_VpcId :: "string option"

record group_ref =
  ref_GroupId :: "string option"

record network_interface =
  eni_Groups :: "group_ref list option"

record sg_page =
  SecurityGroups :: "security_group list option"

record eni_page =
  NetworkInterfaces :: "network_interface list option"

record address =
  addr_AssociationId :: "string option"
  addr_AllocationId :: "string option"
  addr_PublicIp :: "string option"
  addr_Domain :: "string option"

record addresses_response =
  Addresses :: "address list option"

text \<open>
  A \<^verbatim>\<open>datetime.datetime\<close>: the calendar fields, and \<^verbatim>\<open>utcoffset()\<close>, a \<^verbatim>\<open>timedelta\<close>, in
  microseconds (\<open>None\<close>: a naive datetime). The datetimes botocore builds carry
  \<^verbatim>\<open>tzutc()\<close>, offset 0.
\<close>

record datetime =
  year :: nat
  month :: nat
  day :: nat
  hour :: nat
  minute :: nat
  second :: nat
  microsecond :: nat
  utcoffset :: "int option"

record volume =
  vol_CreateTime :: "datetime option"
  vol_VolumeId :: "string option"
  vol_Size :: "int option"
  vol_VolumeType :: "string option"
  vol_AvailabilityZone :: "string option"

record volume_page =
  Volumes :: "volume list option"

text \<open>
  A boto3 EC2 client bound to one region, as the outcome of each call the source makes on
  it: an exception or the pages of the listing. \<open>describe_volumes\<close> is the call with
  \<^verbatim>\<open>Filters=[{"Name": "status", "Values": ["available"]}]\<close>. A paginator that raises after
  some pages gives \<open>Inl\<close>: the pages read before are lost with the exception.
\<close>

record ec2_client =
  describe_security_groups :: "exn + sg_page list"
  describe_network_interfaces :: "exn + eni_page list"
  describe_addresses :: "exn + addresses_response"
  describe_volumes :: "exn + volume_page list"

text \<open>
  A \<^verbatim>\<open>boto3.Session\<close>, as \<^verbatim>\<open>session.client("ec2", region_name=region)\<close>; and
  \<^verbatim>\<open>session or boto3.Session()\<close>, where the argument \<open>boto3_Session\<close> is the outcome of
  constructing the default session.
\<close>

type_synonym session = "string \<Rightarrow> exn + ec2_client"

definition session_or_default :: "session option \<Rightarrow> exn + session \<Rightarrow> exn + session" where
  "session_or_default session boto3_Session =
     (case session of Some s \<Rightarrow> Inr s | None \<Rightarrow> boto3_Session)"

section \<open>Result records\<close>

record OrphanedSGResult =
  sg_region :: string
  group_id :: string
  group_name :: string
  description :: string
  vpc_id :: "string option"

record OrphanedEIPResult =
  eip_region :: string
  allocation_id :: string
  public_ip :: string
  eip_domain :: string

record UnattachedEBSResult =
  ebs_region :: string
  volume_id :: string
  size_gb :: int
  volume_type :: string
  availability_zone :: string
  create_time :: string

text \<open>
  \<^verbatim>\<open>RegionScanResult\<close>, \<^verbatim>\<open>RegionEIPScanResult\<close> and \<^verbatim>\<open>RegionEBSScanResult\<close> have the same
  three fields; \<open>orphaned\<close> defaults to the empty list and \<open>error\<close> to \<^verbatim>\<open>None\<close>.
\<close>

record 'a RegionScanResult =
  region :: string
  orphaned :: "'a list"
  error :: "string option"

section \<open>Security groups (app/scanner.py)\<close>

text \<open>
  The three loops of \<^verbatim>\<open>find_orphaned_security_groups\<close>, each with its accumulator:
  \<^verbatim>\<open>security_groups.extend(page.get("SecurityGroups", []))\<close> over the pages,
  \<^verbatim>\<open>used_sg_ids.add(group.get("GroupId", ""))\<close> over pages, interfaces and groups, and
  the loop that appends an \<^verbatim>\<open>OrphanedSGResult\<close> for every group that neither
  \<^verbatim>\<open>continue\<close> skips.
\<close>

fun extend_security_groups :: "sg_page list \<Rightarrow> security_group list \<Rightarrow> security_group list" where
  "extend_security_groups [] security_groups = security_groups"
| "extend_security_groups (page # pages) security_groups =
     extend_security_groups pages (security_groups @ dict_get (SecurityGroups page) [])"

fun add_groups :: "group_ref list \<Rightarrow> string set \<Rightarrow> string set" where
  "add_groups [] used_sg_ids = used_sg_ids"
| "add_groups (g # gs) used_sg_ids =
     add_groups gs (insert (dict_get (ref_GroupId g) []) used_sg_ids)"

fun add_interfaces :: "network_interface list \<Rightarrow> string set \<Rightarrow> string set" where
  "add_interfaces [] used_sg_ids = used_sg_ids"
| "add_interfaces (eni # enis) used_sg_ids =
     add_interfaces enis (add_groups (dict_get (eni_Groups eni) []) used_sg_ids)"

fun add_eni_pages :: "eni_page list \<Rightarrow> string set \<Rightarrow> string set" where
  "add_eni_pages [] used_sg_ids = used_sg_ids"
| "add_eni_pages (page # pages) used_sg_ids =
     add_eni_pages pages (add_interfaces (dict_get (NetworkInterfaces page) []) used_sg_ids)"

fun append_orphaned_sgs ::
  "string \<Rightarrow> bool \<Rightarrow> string set \<Rightarrow> security_group list \<Rightarrow> OrphanedSGResult list
     \<Rightarrow> OrphanedSGResult list" where
  "append_orphaned_sgs region' exclude_default_sg used_sg_ids [] orphaned' = orphaned'"
| "append_orphaned_sgs region' exclude_default_sg used_sg_ids (sg # sgs) orphaned' =
     (let group_id' = dict_get (sg_GroupId sg) [];
          group_name' = dict_get (sg_GroupName sg) []
      in if group_id' \<in> used_sg_ids
           then append_orphaned_sgs region' exclude_default_sg used_sg_ids sgs orphaned'
         else if exclude_default_sg \<and> group_name' = ''default''
           then append_orphaned_sgs region' exclude_default_sg used_sg_ids sgs orphaned'
         else append_orphaned_sgs region' exclude_default_sg used_sg_ids sgs
                (orphaned' @
                 [\<lparr>sg_region = region', group_id = group_id', group_name = group_name',
                   description = dict_get (sg_Description sg) [],
                   vpc_id = sg_VpcId sg\<rparr>]))"

definition find_orphaned_security_groups ::
  "ec2_client \<Rightarrow> string \<Rightarrow> bool \<Rightarrow> exn + OrphanedSGResult list" where
  "find_orphaned_security_groups ec2_client region' exclude_default_sg =
     (case describe_security_groups ec2_client of
        Inl e \<Rightarrow> reraise_logged e
      | Inr pages \<Rightarrow>
          (let security_groups = extend_security_groups pages []
           in case describe_network_interfaces ec2_client of
                Inl e \<Rightarrow> reraise_logged e
              | Inr eni_pages \<Rightarrow>
                  (let used_sg_ids = add_eni_pages eni_pages {}
                   in Inr (append_orphaned_sgs region' exclude_default_sg used_sg_ids
                             security_groups []))))"

text \<open>
  \<^verbatim>\<open>scan_region_for_orphaned_sgs\<close>: the default session is constructed before the
  \<^verbatim>\<open>try\<close>; inside it the client is made and the reconciler runs; \<^verbatim>\<open>except Exception\<close> turns
  an exception of that class into a result with \<^verbatim>\<open>error=str(e)\<close> and the default empty
  \<open>orphaned\<close>, and lets any other exception through.
\<close>

definition scan_region_for_orphaned_sgs ::
  "string \<Rightarrow> bool \<Rightarrow> session option \<Rightarrow> exn + session
     \<Rightarrow> exn + OrphanedSGResult RegionScanResult" where
  "scan_region_for_orphaned_sgs region' exclude_default_sg session boto3_Session =
     (case session_or_default session boto3_Session of
        Inl e \<Rightarrow> Inl e
      | Inr s \<Rightarrow>
          (case (case s region' of
                   Inl e \<Rightarrow> Inl e
                 | Inr ec2 \<Rightarrow> find_orphaned_security_groups ec2 region' exclude_default_sg) of
             Inr orphaned' \<Rightarrow> Inr \<lparr>region = region', orphaned = orphaned', error = None\<rparr>
           | Inl e \<Rightarrow>
               if is_Exception e
               then Inr \<lparr>region = region', orphaned = [], error = Some (exn_str e)\<rparr>
               else Inl e))"

definition scan_all_regions ::
  "string list option \<Rightarrow> bool \<Rightarrow> session option \<Rightarrow> exn + session
     \<Rightarrow> exn + OrphanedSGResult RegionScanResult list" where
  "scan_all_regions regions exclude_default_sg session boto3_Session =
     (let regions1 = regions_or_REGIONS regions;
          regions2 = get_regions (Some regions1)
      in case session_or_default session boto3_Session of
           Inl e \<Rightarrow> Inl e
         | Inr s \<Rightarrow>
             append_each
               (\<lambda>region'. scan_region_for_orphaned_sgs region' exclude_default_sg (Some s)
                            boto3_Session)
               regions2 [])"

section \<open>Elastic IPs (app/scanner\_eips.py)\<close>

fun append_orphaned_eips ::
  "string \<Rightarrow> address list \<Rightarrow> OrphanedEIPResult list \<Rightarrow> OrphanedEIPResult list" where
  "append_orphaned_eips region' [] orphaned' = orphaned'"
| "append_orphaned_eips region' (a # addrs) orphaned' =
     (if truthy_str (addr_AssociationId a)
        then append_orphaned_eips region' addrs orphaned'
      else append_orphaned_eips region' addrs
             (orphaned' @
              [\<lparr>eip_region = region',
                allocation_id = dict_get (addr_AllocationId a) [],
                public_ip = dict_get (addr_PublicIp a) [],
                eip_domain = dict_get (addr_Domain a) ''vpc''\<rparr>]))"

text \<open>
  \<^verbatim>\<open>describe_addresses()["Addresses"]\<close> is a subscript, not a \<^verbatim>\<open>.get\<close>: a response without
  the key raises \<^verbatim>\<open>KeyError('Addresses')\<close>, whose \<^verbatim>\<open>str\<close> is the key in quotes.
\<close>

definition KeyError_Addresses :: exn where
  "KeyError_Addresses = Exn OtherException ([CHR 0x27] @ ''Addresses'' @ [CHR 0x27])"

definition find_orphaned_elastic_ips :: "ec2_client \<Rightarrow> string \<Rightarrow> exn + OrphanedEIPResult list" where
  "find_orphaned_elastic_ips ec2_client region' =
     (case describe_addresses ec2_client of
        Inl e \<Rightarrow> reraise_logged e
      | Inr response \<Rightarrow>
          (case Addresses response of
             None \<Rightarrow> reraise_logged KeyError_Addresses
           | Some addrs \<Rightarrow> Inr (append_orphaned_eips region' addrs [])))"

definition scan_region_for_orphaned_eips ::
  "string \<Rightarrow> session option \<Rightarrow> exn + session \<Rightarrow> exn + OrphanedEIPResult RegionScanResult" where
  "scan_region_for_orphaned_eips region' session boto3_Session =
     (case session_or_default session boto3_Session of
        Inl e \<Rightarrow> Inl e
      | Inr s \<Rightarrow>
          (case (case s region' of
                   Inl e \<Rightarrow> Inl e
                 | Inr ec2 \<Rightarrow> find_orphaned_elastic_ips ec2 region') of
             Inr orphaned' \<Rightarrow> Inr \<lparr>region = region', orphaned = orphaned', error = None\<rparr>
           | Inl e \<Rightarrow>
               if is_Exception e
               then Inr \<lparr>region = region', orphaned = [], error = Some (exn_str e)\<rparr>
               else Inl e))"

definition scan_all_regions_eips ::
  "string list option \<Rightarrow> session option \<Rightarrow> exn + session
     \<Rightarrow> exn + OrphanedEIPResult RegionScanResult list" where
  "scan_all_regions_eips regions session boto3_Session =
     (let regions1 = regions_or_REGIONS regions;
          regions2 = get_regions (Some regions1)
      in case session_or_default session boto3_Session of
           Inl e \<Rightarrow> Inl e
         | Inr s \<Rightarrow>
             append_each (\<lambda>r. scan_region_for_orphaned_eips r (Some s) boto3_Session)
               regions2 [])"

section \<open>Volumes (app/scanner\_ebs.py)\<close>

subsection \<open>Python's number and datetime formatting\<close>

definition digit_char :: "nat \<Rightarrow> char" where
  "digit_char n = ''0123456789'' ! (n mod 10)"

fun str_nat :: "nat \<Rightarrow> string" where
  "str_nat n = (if n < 10 then [digit_char n] else str_nat (n div 10) @ [digit_char (n mod 10)])"

declare str_nat.simps [simp del]

text \<open>
  \<open>str_nat\<close> is the decimal text of a natural number; \<^verbatim>\<open>"%0wd" % n\<close> pads it with zeros on
  the left to the width \<open>w\<close>. \<^verbatim>\<open>int(x)\<close> of an integer is the integer.
\<close>

definition py_int :: "int \<Rightarrow> int" where
  "py_int i = i"

definition zero_padded :: "nat \<Rightarrow> nat \<Rightarrow> string" where
  "zero_padded w n = replicate (w - length (str_nat n)) (CHR ''0'') @ str_nat n"

text \<open>
  \<^verbatim>\<open>datetime.isoformat(sep)\<close> with the default \<^verbatim>\<open>timespec='auto'\<close>: the date, the separator,
  the time with the microseconds only when they are not zero, and the UTC offset when the
  datetime is aware. The offset is printed as sign, hours and minutes, followed by the
  seconds only when the offset is not a whole number of minutes, and by the microseconds
  only when it is not a whole number of seconds.
\<close>

definition format_time :: "nat \<Rightarrow> nat \<Rightarrow> nat \<Rightarrow> nat \<Rightarrow> string" where
  "format_time hh mm ss us =
     zero_padded 2 hh @ '':'' @ zero_padded 2 mm @ '':'' @ zero_padded 2 ss
     @ (if us \<noteq> 0 then ''.'' @ zero_padded 6 us else [])"

definition format_offset :: "int option \<Rightarrow> string" where
  "format_offset off =
     (case off of
        None \<Rightarrow> []
      | Some us \<Rightarrow>
          (let a = nat \<bar>us\<bar>;
               hh = a div 3600000000;
               r = a mod 3600000000;
               mm = r div 60000000;
               r' = r mod 60000000;
               ss = r' div 1000000;
               f = r' mod 1000000
           in (if us < 0 then ''-'' else ''+'')
              @ zero_padded 2 hh @ '':'' @ zero_padded 2 mm
              @ (if ss \<noteq> 0 \<or> f \<noteq> 0
                 then '':'' @ zero_padded 2 ss
                      @ (if f \<noteq> 0 then ''.'' @ zero_padded 6 f else [])
                 else [])))"

definition isoformat :: "char \<Rightarrow> datetime \<Rightarrow> string" where
  "isoformat sep d =
     zero_padded 4 (year d) @ ''-'' @ zero_padded 2 (month d) @ ''-'' @ zero_padded 2 (day d)
     @ [sep]
     @ format_time (hour d) (minute d) (second d) (microsecond d)
     @ format_offset (utcoffset d)"



subsection \<open>The reconciler and the scans\<close>

fun extend_volumes :: "volume_page list \<Rightarrow> volume list \<Rightarrow> volume list" where
  "extend_volumes [] volumes = volumes"
| "extend_volumes (page # pages) volumes =
     extend_volumes pages (volumes @ dict_get (Volumes page) [])"

text \<open>
  The loop of \<^verbatim>\<open>find_unattached_ebs_volumes\<close>. A \<^verbatim>\<open>CreateTime\<close> that is present is a
  datetime: the \<^verbatim>\<open>isinstance\<close> test holds and \<^verbatim>\<open>isoformat()\<close> is taken. When the key is
  missing, \<^verbatim>\<open>v.get("CreateTime")\<close> is \<^verbatim>\<open>None\<close> and the \<^verbatim>\<open>else\<close> branch gives
  \<^verbatim>\<open>str(None or "")\<close>, the empty string.
\<close>

fun append_unattached ::
  "string \<Rightarrow> volume list \<Rightarrow> UnattachedEBSResult list \<Rightarrow> UnattachedEBSResult list" where
  "append_unattached region' [] result = result"
| "append_unattached region' (v # vs) result =
     (let create_time0 = vol_CreateTime v;
          create_time1 =
            (case create_time0 of
               Some d \<Rightarrow> isoformat (CHR ''T'') d
             | None \<Rightarrow> [])
      in append_unattached region' vs
           (result @
            [\<lparr>ebs_region = region',
              volume_id = dict_get (vol_VolumeId v) [],
              size_gb = py_int (dict_get (vol_Size v) 0),
              volume_type = dict_get (vol_VolumeType v) [],
              availability_zone = dict_get (vol_AvailabilityZone v) [],
              create_time = create_time1\<rparr>]))"

definition find_unattached_ebs_volumes ::
  "ec2_client \<Rightarrow> string \<Rightarrow> exn + UnattachedEBSResult list" where
  "find_unattached_ebs_volumes ec2_client region' =
     (case describe_volumes ec2_client of
        Inl e \<Rightarrow> reraise_logged e
      | Inr pages \<Rightarrow>
          (let volumes = extend_volumes pages []
           in Inr (append_unattached region' volumes [])))"

definition scan_region_for_unattached_ebs ::
  "string \<Rightarrow> session option \<Rightarrow> exn + session \<Rightarrow> exn + UnattachedEBSResult RegionScanResult" where
  "scan_region_for_unattached_ebs region' session boto3_Session =
     (case session_or_default session boto3_Session of
        Inl e \<Rightarrow> Inl e
      | Inr s \<Rightarrow>
          (case (case s region' of
                   Inl e \<Rightarrow> Inl e
                 | Inr ec2 \<Rightarrow> find_unattached_ebs_volumes ec2 region') of
             Inr orphaned' \<Rightarrow> Inr \<lparr>region = region', orphaned = orphaned', error = None\<rparr>
           | Inl e \<Rightarrow>
               if is_Exception e
               then Inr \<lparr>region = region', orphaned = [], error = Some (exn_str e)\<rparr>
               else Inl e))"

definition scan_all_regions_ebs ::
  "string list option \<Rightarrow> session option \<Rightarrow> exn + session
     \<Rightarrow> exn + UnattachedEBSResult RegionScanResult list" where
  "scan_all_regions_ebs regions session boto3_Session =
     (let regions1 = regions_or_REGIONS regions;
          regions2 = get_regions (Some regions1)
      in case session_or_default session boto3_Session of
           Inl e \<Rightarrow> Inl e
         | Inr s \<Rightarrow>
             append_each (\<lambda>r. scan_region_for_unattached_ebs r (Some s) boto3_Session)
               regions2 [])"

subsection \<open>ISO 8601, as the specification names the format of the creation timestamp\<close>







section \<open>The listings and records the statements speak of\<close>

text \<open>
  The listings the reconcilers work on, written without the loops: the security groups,
  network interfaces and volumes of all pages in order; the group identifiers attached
  to one interface; the identifier and name the source reads from a group; and the
  result record the source builds for one provider record.
\<close>

definition sg_listing :: "sg_page list \<Rightarrow> security_group list" where
  "sg_listing pages = concat (map (\<lambda>page. dict_get (SecurityGroups page) []) pages)"

definition eni_listing :: "eni_page list \<Rightarrow> network_interface list" where
  "eni_listing pages = concat (map (\<lambda>page. dict_get (NetworkInterfaces page) []) pages)"

definition volume_listing :: "volume_page list \<Rightarrow> volume list" where
  "volume_listing pages = concat (map (\<lambda>page. dict_get (Volumes page) []) pages)"

definition attached_group_ids :: "network_interface \<Rightarrow> string list" where
  "attached_group_ids eni = map (\<lambda>g. dict_get (ref_GroupId g) []) (dict_get (eni_Groups eni) [])"

definition used_ids :: "network_interface list \<Rightarrow> string set" where
  "used_ids enis = (\<Union>eni \<in> set enis. set (attached_group_ids eni))"

definition sg_id :: "security_group \<Rightarrow> string" where
  "sg_id sg = dict_get (sg_GroupId sg) []"

definition sg_name :: "security_group \<Rightarrow> string" where
  "sg_name sg = dict_get (sg_GroupName sg) []"

definition sg_result :: "string \<Rightarrow> security_group \<Rightarrow> OrphanedSGResult" where
  "sg_result region' sg =
     \<lparr>sg_region = region', group_id = sg_id sg, group_name = sg_name sg,
      description = dict_get (sg_Description sg) [], vpc_id = sg_VpcId sg\<rparr>"

definition sg_is_orphan :: "bool \<Rightarrow> string set \<Rightarrow> security_group \<Rightarrow> bool" where
  "sg_is_orphan exclude_default_sg used sg =
     (sg_id sg \<notin> used \<and> \<not> (exclude_default_sg \<and> sg_name sg = ''default''))"

definition eip_result :: "string \<Rightarrow> address \<Rightarrow> OrphanedEIPResult" where
  "eip_result region' a =
     \<lparr>eip_region = region',
      allocation_id = dict_get (addr_AllocationId a) [],
      public_ip = dict_get (addr_PublicIp a) [],
      eip_domain = dict_get (addr_Domain a) ''vpc''\<rparr>"

definition no_association :: "address \<Rightarrow> bool" where
  "no_association a = (addr_AssociationId a = None \<or> addr_AssociationId a = Some [])"

definition ebs_result :: "string \<Rightarrow> volume \<Rightarrow> UnattachedEBSResult" where
  "ebs_result region' v =
     \<lparr>ebs_region = region',
      volume_id = dict_get (vol_VolumeId v) [],
      size_gb = dict_get (vol_Size v) 0,
      volume_type = dict_get (vol_VolumeType v) [],
      availability_zone = dict_get (vol_AvailabilityZone v) [],
      create_time = (case vol_CreateTime v of None \<Rightarrow> [] | Some d \<Rightarrow> isoformat (CHR ''T'') d)\<rparr>"

section \<open>The body of the per-region try block, and the result it leads to\<close>

text \<open>
  What the three per-region orchestrators run inside \<^verbatim>\<open>try\<close> for one region: make the
  client, then run the reconciler. \<open>outcome_of\<close> is the \<^verbatim>\<open>RegionScanResult\<close> that the
  \<^verbatim>\<open>return\<close> of the \<^verbatim>\<open>try\<close> or of the handler builds from it.
\<close>

definition inventory_sgs :: "session \<Rightarrow> bool \<Rightarrow> string \<Rightarrow> exn + OrphanedSGResult list" where
  "inventory_sgs s exclude_default_sg region' =
     (case s region' of
        Inl e \<Rightarrow> Inl e
      | Inr ec2 \<Rightarrow> find_orphaned_security_groups ec2 region' exclude_default_sg)"

definition inventory_eips :: "session \<Rightarrow> string \<Rightarrow> exn + OrphanedEIPResult list" where
  "inventory_eips s region' =
     (case s region' of Inl e \<Rightarrow> Inl e | Inr ec2 \<Rightarrow> find_orphaned_elastic_ips ec2 region')"

definition inventory_ebs :: "session \<Rightarrow> string \<Rightarrow> exn + UnattachedEBSResult list" where
  "inventory_ebs s region' =
     (case s region' of Inl e \<Rightarrow> Inl e | Inr ec2 \<Rightarrow> find_unattached_ebs_volumes ec2 region')"

definition outcome_of :: "string \<Rightarrow> exn + 'a list \<Rightarrow> 'a RegionScanResult" where
  "outcome_of region' attempt =
     (case attempt of
        Inr orphaned' \<Rightarrow> \<lparr>region = region', orphaned = orphaned', error = None\<rparr>
      | Inl e \<Rightarrow> \<lparr>region = region', orphaned = [], error = Some (exn_str e)\<rparr>)"

text \<open>The regions a fleet scan iterates: \<^verbatim>\<open>get_regions(regions or REGIONS)\<close>.\<close>

definition scanned_regions :: "string list option \<Rightarrow> string list" where
  "scanned_regions regions = get_regions (Some (regions_or_REGIONS regions))"

section \<open>Example inputs\<close>

text \<open>
  A region with three security groups on three pages (the middle page without the
  \<^verbatim>\<open>SecurityGroups\<close> key), one of them the default group and one attached to an interface;
  three addresses; and three volumes, one created at a UTC time, one without creation
  time, one created at a time with microseconds in a zone five and a half hours ahead.
\<close>

definition example_sg_pages :: "sg_page list" where
  "example_sg_pages =
     [\<lparr>SecurityGroups = Some
         [\<lparr>sg_GroupId = Some ''sg-1'', sg_GroupName = Some ''default'',
           sg_Description = Some ''default VPC security group'', sg_VpcId = Some ''vpc-1''\<rparr>,
          \<lparr>sg_GroupId = Some ''sg-2'', sg_GroupName = Some ''web'',
           sg_Description = None, sg_VpcId = None\<rparr>]\<rparr>,
      \<lparr>SecurityGroups = None\<rparr>,
      \<lparr>SecurityGroups = Some
         [\<lparr>sg_GroupId = Some ''sg-3'', sg_GroupName = Some ''db'',
           sg_Description = Some ''database'', sg_VpcId = Some ''vpc-1''\<rparr>]\<rparr>]"

definition example_eni_pages :: "eni_page list" where
  "example_eni_pages =
     [\<lparr>NetworkInterfaces = Some
         [\<lparr>eni_Groups = Some [\<lparr>ref_GroupId = Some ''sg-3''\<rparr>]\<rparr>,
          \<lparr>eni_Groups = None\<rparr>]\<rparr>]"

definition example_addresses :: "address list" where
  "example_addresses =
     [\<lparr>addr_AssociationId = Some [], addr_AllocationId = Some ''eipalloc-1'',
       addr_PublicIp = Some ''198.51.100.1'', addr_Domain = Some ''vpc''\<rparr>,
      \<lparr>addr_AssociationId = Some ''eipassoc-1'', addr_AllocationId = Some ''eipalloc-2'',
       addr_PublicIp = Some ''198.51.100.2'', addr_Domain = Some ''vpc''\<rparr>,
      \<lparr>addr_AssociationId = None, addr_AllocationId = None,
       addr_PublicIp = Some ''198.51.100.3'', addr_Domain = None\<rparr>]"

definition example_datetime :: datetime where
  "example_datetime =
     \<lparr>year = 2024, month = 1, day = 5, hour = 3, minute = 4, second = 5,
      microsecond = 0, utcoffset = Some 0\<rparr>"

definition example_datetime_offset :: datetime where
  "example_datetime_offset =
     \<lparr>year = 2023, month = 12, day = 31, hour = 23, minute = 59, second = 59,
      microsecond = 250000, utcoffset = Some 19800000000\<rparr>"

definition example_volume_pages :: "volume_page list" where
  "example_volume_pages =
     [\<lparr>Volumes = Some
         [\<lparr>vol_CreateTime = Some example_datetime,
           vol_VolumeId = Some ''vol-1'', vol_Size = Some 8,
           vol_VolumeType = Some ''gp3'', vol_AvailabilityZone = Some ''us-east-1a''\<rparr>]\<rparr>,
      \<lparr>Volumes = Some
         [\<lparr>vol_CreateTime = None,
           vol_VolumeId = Some ''vol-2'', vol_Size = None,
           vol_VolumeType = None, vol_AvailabilityZone = None\<rparr>,
          \<lparr>vol_CreateTime = Some example_datetime_offset,
           vol_VolumeId = Some ''vol-3'', vol_Size = Some 100,
           vol_VolumeType = Some ''io2'', vol_AvailabilityZone = Some ''us-east-1b''\<rparr>]\<rparr>]"

definition example_client :: ec2_client where
  "example_client =
     \<lparr>describe_security_groups = Inr example_sg_pages,
      describe_network_interfaces = Inr example_eni_pages,
      describe_addresses = Inr \<lparr>Addresses = Some example_addresses\<rparr>,
      describe_volumes = Inr example_volume_pages\<rparr>"

text \<open>
  The same listings paged differently, the interface listed twice, and the calls the
  other reconcilers make failing.
\<close>

definition example_sg_client_repaged :: ec2_client where
  "example_sg_client_repaged =
     \<lparr>describe_security_groups = Inr [\<lparr>SecurityGroups = Some (sg_listing example_sg_pages)\<rparr>],
      describe_network_interfaces =
        Inr (\<lparr>NetworkInterfaces = None\<rparr> # example_eni_pages @ example_eni_pages),
      describe_addresses = Inl (Exn ClientError ''An error occurred (RequestLimitExceeded)''),
      describe_volumes = Inl (Exn ClientError ''An error occurred (RequestLimitExceeded)'')\<rparr>"

definition example_other_client_repaged :: ec2_client where
  "example_other_client_repaged =
     \<lparr>describe_security_groups = Inl (Exn NoCredentialsError ''Unable to locate credentials''),
      describe_network_interfaces = Inr [],
      describe_addresses = Inr \<lparr>Addresses = Some example_addresses\<rparr>,
      describe_volumes = Inr [\<lparr>Volumes = Some (volume_listing example_volume_pages)\<rparr>]\<rparr>"

text \<open>A region without resources.\<close>

definition empty_client :: ec2_client where
  "empty_client =
     \<lparr>describe_security_groups = Inr [],
      describe_network_interfaces = Inr [],
      describe_addresses = Inr \<lparr>Addresses = Some []\<rparr>,
      describe_volumes = Inr []\<rparr>"

text \<open>
  A client all of whose calls raise the same exception; a session in which region \<open>bad\<close>
  has such a client, \<^verbatim>\<open>us-east-1\<close> has the example client and every other region is
  empty; and a default session that cannot be constructed.
\<close>

definition failing_client :: "exn \<Rightarrow> ec2_client" where
  "failing_client e =
     \<lparr>describe_security_groups = Inl e,
      describe_network_interfaces = Inl e,
      describe_addresses = Inl e,
      describe_volumes = Inl e\<rparr>"

definition session_failing_in :: "string \<Rightarrow> exn \<Rightarrow> session" where
  "session_failing_in bad e r =
     (if r = bad then Inr (failing_client e)
      else if r = ''us-east-1'' then Inr example_client
      else Inr empty_client)"

definition all_empty_session :: session where
  "all_empty_session r = Inr empty_client"

definition AuthFailure :: exn where
  "AuthFailure =
     Exn ClientError
       ''An error occurred (AuthFailure) when calling the DescribeSecurityGroups operation: AWS was not able to validate the provided access credentials''"

definition no_default_session :: "exn + session" where
  "no_default_session = Inl (Exn OtherException ''The config profile (missing) could not be found'')"

section \<open>Region catalog: properties\<close>

lemma length_REGIONS: "length REGIONS = 21"
  by (simp add: REGIONS_def)

lemma get_regions_REGIONS: "get_regions (Some REGIONS) = REGIONS"
  by (simp add: get_regions_def)

lemma count_list_filter_member:
  "count_list (filter P xs) x = (if P x then count_list xs x else 0)"
  by (induction xs) auto

text \<open>
  Claim C6. For every requested list \<open>S\<close> of region codes, \<open>get_regions\<close> returns a list
  whose elements all lie in the catalog and in \<open>S\<close>, in the relative order of \<open>S\<close>, and
  every catalog code occurs in it as often as in \<open>S\<close> (duplicates pass through); without a
  requested list it returns the catalog, which has 21 elements.
\<close>

theorem get_regions_filter:
  "get_regions None = REGIONS
   \<and> length (get_regions None) = 21
   \<and> set (get_regions (Some S)) \<subseteq> set REGIONS \<inter> set S
   \<and> subseq (get_regions (Some S)) S
   \<and> (\<forall>r. count_list (get_regions (Some S)) r
            = (if r \<in> set REGIONS then count_list S r else 0))"
  by (auto simp: get_regions_def length_REGIONS count_list_filter_member)

theorem get_regions_filter_witness:
  "get_regions (Some [''bogus'', ''eu-west-1'', ''us-east-1'', ''eu-west-1''])
     = [''eu-west-1'', ''us-east-1'', ''eu-west-1'']
   \<and> subseq [''eu-west-1'', ''us-east-1'', ''eu-west-1'']
        [''bogus'', ''eu-west-1'', ''us-east-1'', ''eu-west-1'']
   \<and> count_list (get_regions (Some [''bogus'', ''eu-west-1'', ''us-east-1'', ''eu-west-1'']))
        ''eu-west-1'' = 2"
  using get_regions_filter [of "[''bogus'', ''eu-west-1'', ''us-east-1'', ''eu-west-1'']"]
  by (simp add: get_regions_def REGIONS_def)

section \<open>Console URLs: properties\<close>

text \<open>
  Claim C7. For every region and identifier, each console-URL builder returns exactly the
  text of the specification's template with \<^verbatim>\<open>{region}\<close> and the identifier placeholder
  replaced: the security-group, the elastic-IP and the volume URL; and the
  specification's example for region \<^verbatim>\<open>us-east-1\<close> and group \<^verbatim>\<open>sg-0123\<close>.
\<close>

theorem console_urls_match_templates:
  "security_group_console_url r g
     = render_template sg_url_template [''region'' \<mapsto> r, ''groupId'' \<mapsto> g]
   \<and> elastic_ip_console_url r a
     = render_template eip_url_template [''region'' \<mapsto> r, ''allocationId'' \<mapsto> a]
   \<and> ebs_volume_console_url r v
     = render_template ebs_url_template [''region'' \<mapsto> r, ''volumeId'' \<mapsto> v]
   \<and> security_group_console_url r g
     = ''https://'' @ r @ ''.console.aws.amazon.com/ec2/home?region='' @ r
       @ ''#SecurityGroup:groupId='' @ g
   \<and> elastic_ip_console_url r a
     = ''https://'' @ r @ ''.console.aws.amazon.com/ec2/home?region='' @ r
       @ ''#ElasticIpDetails:AllocationId='' @ a
   \<and> ebs_volume_console_url r v
     = ''https://'' @ r @ ''.console.aws.amazon.com/ec2/v2/home?region='' @ r
       @ ''#VolumeDetails:VolumeId='' @ v
   \<and> security_group_console_url ''us-east-1'' ''sg-0123''
     = ''https://us-east-1.console.aws.amazon.com/ec2/home?region=us-east-1#SecurityGroup:groupId=sg-0123''"
  by (simp add: security_group_console_url_def elastic_ip_console_url_def
      ebs_volume_console_url_def render_template_def sg_url_template_def eip_url_template_def
      ebs_url_template_def dict_get_def)

theorem console_urls_match_templates_witness:
  "elastic_ip_console_url ''eu-west-1'' ''eipalloc-0a1b''
     = ''https://eu-west-1.console.aws.amazon.com/ec2/home?region=eu-west-1#ElasticIpDetails:AllocationId=eipalloc-0a1b''
   \<and> ebs_volume_console_url ''eu-west-1'' ''vol-0c2d''
     = ''https://eu-west-1.console.aws.amazon.com/ec2/v2/home?region=eu-west-1#VolumeDetails:VolumeId=vol-0c2d''"
  using console_urls_match_templates [of "''eu-west-1''" "''sg-1''" "''eipalloc-0a1b''" "''vol-0c2d''"]
  by (simp add: render_template_def eip_url_template_def ebs_url_template_def dict_get_def)

section \<open>The reconcilers without their loops\<close>

text \<open>
  Each accumulator loop is the append, union, filter or map it computes; with these the
  three reconcilers are a single expression over the listings.
\<close>

lemma reraise_logged_eq: "reraise_logged e = Inl e"
  by (simp add: reraise_logged_def split: exn_class.splits)

lemma extend_security_groups_eq:
  "extend_security_groups pages acc = acc @ sg_listing pages"
  by (induction pages arbitrary: acc) (simp_all add: sg_listing_def)

lemma add_groups_eq:
  "add_groups gs used = used \<union> (\<lambda>g. dict_get (ref_GroupId g) []) ` set gs"
  by (induction gs arbitrary: used) auto

lemma add_interfaces_eq:
  "add_interfaces enis used = used \<union> used_ids enis"
  by (induction enis arbitrary: used)
     (auto simp: used_ids_def attached_group_ids_def add_groups_eq)

lemma used_ids_Nil: "used_ids [] = {}"
  by (simp add: used_ids_def)

lemma used_ids_append: "used_ids (xs @ ys) = used_ids xs \<union> used_ids ys"
  by (auto simp: used_ids_def)

lemma add_eni_pages_eq:
  "add_eni_pages pages used = used \<union> used_ids (eni_listing pages)"
  by (induction pages arbitrary: used)
     (auto simp: eni_listing_def add_interfaces_eq used_ids_append used_ids_Nil)

lemma append_orphaned_sgs_eq:
  "append_orphaned_sgs r excl used sgs acc
     = acc @ map (sg_result r) (filter (sg_is_orphan excl used) sgs)"
  by (induction sgs arbitrary: acc)
     (auto simp: sg_result_def sg_is_orphan_def sg_id_def sg_name_def Let_def)

lemma find_orphaned_security_groups_eq:
  "find_orphaned_security_groups c r excl =
     (case describe_security_groups c of
        Inl e \<Rightarrow> Inl e
      | Inr pages \<Rightarrow>
          (case describe_network_interfaces c of
             Inl e \<Rightarrow> Inl e
           | Inr eni_pages \<Rightarrow>
               Inr (map (sg_result r)
                      (filter (sg_is_orphan excl (used_ids (eni_listing eni_pages)))
                         (sg_listing pages)))))"
  by (simp add: find_orphaned_security_groups_def reraise_logged_eq
      extend_security_groups_eq add_eni_pages_eq append_orphaned_sgs_eq
      split: sum.splits)

lemma append_orphaned_eips_eq:
  "append_orphaned_eips r addrs acc
     = acc @ map (eip_result r) (filter no_association addrs)"
  by (induction addrs arbitrary: acc)
     (auto simp: eip_result_def no_association_def truthy_str_def split: option.splits)

lemma find_orphaned_elastic_ips_eq:
  "find_orphaned_elastic_ips c r =
     (case describe_addresses c of
        Inl e \<Rightarrow> Inl e
      | Inr response \<Rightarrow>
          (case Addresses response of
             None \<Rightarrow> Inl KeyError_Addresses
           | Some addrs \<Rightarrow> Inr (map (eip_result r) (filter no_association addrs))))"
  by (simp add: find_orphaned_elastic_ips_def reraise_logged_eq append_orphaned_eips_eq
      split: sum.splits option.splits)

lemma extend_volumes_eq:
  "extend_volumes pages acc = acc @ volume_listing pages"
  by (induction pages arbitrary: acc) (simp_all add: volume_listing_def)

lemma append_unattached_eq:
  "append_unattached r vs acc = acc @ map (ebs_result r) vs"
  by (induction vs arbitrary: acc)
     (simp_all add: ebs_result_def py_int_def Let_def split: option.splits)

lemma find_unattached_ebs_volumes_eq:
  "find_unattached_ebs_volumes c r =
     (case describe_volumes c of
        Inl e \<Rightarrow> Inl e
      | Inr pages \<Rightarrow> Inr (map (ebs_result r) (volume_listing pages)))"
  by (simp add: find_unattached_ebs_volumes_def reraise_logged_eq extend_volumes_eq
      append_unattached_eq split: sum.splits)

section \<open>Security groups: the reconciler\<close>

text \<open>
  Claim C1. For every security-group listing and every network-interface listing (the
  pages the two calls return) and either value of the flag, the reconciler returns a
  list and raises nothing; the list holds, in the order of the listing, the records of
  exactly the groups whose identifier is in no interface's attached-group list and, when
  the flag is set, whose name is not \<^verbatim>\<open>default\<close>; so a group of the listing has its record
  in the output iff it meets that condition. With no interface, that is every group not
  excluded as default; with no group, the output is empty.
\<close>

theorem find_orphaned_security_groups_iff:
assumes "describe_security_groups c = Inr sg_pages"
    and "describe_network_interfaces c = Inr eni_pages"
  shows "\<exists>out. find_orphaned_security_groups c r excl = Inr out
           \<and> out = map (sg_result r)
                   (filter (\<lambda>g. sg_id g \<notin> used_ids (eni_listing eni_pages)
                               \<and> (excl \<longrightarrow> sg_name g \<noteq> ''default''))
                      (sg_listing sg_pages))
           \<and> (\<forall>g \<in> set (sg_listing sg_pages).
                 sg_result r g \<in> set out
                 \<longleftrightarrow> (sg_id g \<notin> (\<Union>n \<in> set (eni_listing eni_pages). set (attached_group_ids n))
                      \<and> (excl \<longrightarrow> sg_name g \<noteq> ''default'')))
           \<and> (eni_listing eni_pages = [] \<longrightarrow>
                 (\<forall>g \<in> set (sg_listing sg_pages).
                    sg_result r g \<in> set out \<longleftrightarrow> (excl \<longrightarrow> sg_name g \<noteq> ''default'')))
           \<and> (sg_listing sg_pages = [] \<longrightarrow> out = [])"
proof -
  let ?used = "used_ids (eni_listing eni_pages)"
  let ?out = "map (sg_result r) (filter (sg_is_orphan excl ?used) (sg_listing sg_pages))"
  have run: "find_orphaned_security_groups c r excl = Inr ?out"
    using assms by (simp add: find_orphaned_security_groups_eq)
  have pred: "sg_is_orphan excl ?used = (\<lambda>g. sg_id g \<notin> ?used \<and> (excl \<longrightarrow> sg_name g \<noteq> ''default''))"
    by (auto simp: sg_is_orphan_def)
  have inj: "sg_result r g \<in> set ?out \<longleftrightarrow> sg_is_orphan excl ?used g"
    if "g \<in> set (sg_listing sg_pages)" for g
  proof
    assume "sg_result r g \<in> set ?out"
    then obtain g' where g': "sg_is_orphan excl ?used g'" "sg_result r g' = sg_result r g"
      by auto
    from g'(2) have "sg_id g' = sg_id g" "sg_name g' = sg_name g"
      by (simp_all add: sg_result_def)
    with g'(1) show "sg_is_orphan excl ?used g"
      by (simp add: sg_is_orphan_def)
  next
    assume "sg_is_orphan excl ?used g"
    with that show "sg_result r g \<in> set ?out" by simp
  qed
  have empty_used: "eni_listing eni_pages = [] \<Longrightarrow> ?used = {}"
    by (simp add: used_ids_Nil)
  have c2: "?out = map (sg_result r)
                   (filter (\<lambda>g. sg_id g \<notin> ?used \<and> (excl \<longrightarrow> sg_name g \<noteq> ''default''))
                      (sg_listing sg_pages))"
    by (simp only: pred)
  have c3: "\<forall>g \<in> set (sg_listing sg_pages).
              sg_result r g \<in> set ?out
              \<longleftrightarrow> (sg_id g \<notin> (\<Union>n \<in> set (eni_listing eni_pages). set (attached_group_ids n))
                   \<and> (excl \<longrightarrow> sg_name g \<noteq> ''default''))"
    using inj by (simp add: sg_is_orphan_def used_ids_def)
  have c4: "eni_listing eni_pages = [] \<longrightarrow>
              (\<forall>g \<in> set (sg_listing sg_pages).
                 sg_result r g \<in> set ?out \<longleftrightarrow> (excl \<longrightarrow> sg_name g \<noteq> ''default''))"
  proof (intro impI ballI)
    fix g
    assume e: "eni_listing eni_pages = []" and g: "g \<in> set (sg_listing sg_pages)"
    from inj [OF g] show "sg_result r g \<in> set ?out \<longleftrightarrow> (excl \<longrightarrow> sg_name g \<noteq> ''default'')"
      by (simp add: sg_is_orphan_def e used_ids_Nil)
  qed
  have c5: "sg_listing sg_pages = [] \<longrightarrow> ?out = []"
    by simp
  from run c2 c3 c4 c5 show ?thesis
    by blast
qed

theorem find_orphaned_security_groups_iff_witness:
  "find_orphaned_security_groups example_client ''us-east-1'' True
     = Inr [\<lparr>sg_region = ''us-east-1'', group_id = ''sg-2'', group_name = ''web'',
             description = [], vpc_id = None\<rparr>]"
proof -
  have h1: "describe_security_groups example_client = Inr example_sg_pages"
    and h2: "describe_network_interfaces example_client = Inr example_eni_pages"
    by (simp_all add: example_client_def)
  from find_orphaned_security_groups_iff [OF h1 h2, of "''us-east-1''" True]
  obtain out where "find_orphaned_security_groups example_client ''us-east-1'' True = Inr out"
    and "out = map (sg_result ''us-east-1'')
                 (filter (\<lambda>g. sg_id g \<notin> used_ids (eni_listing example_eni_pages)
                             \<and> (True \<longrightarrow> sg_name g \<noteq> ''default''))
                    (sg_listing example_sg_pages))"
    by blast
  then show ?thesis
    by (simp add: example_sg_pages_def example_eni_pages_def sg_listing_def eni_listing_def
        used_ids_def attached_group_ids_def sg_id_def sg_name_def sg_result_def dict_get_def)
qed

section \<open>Formatting: digits, padding and the ISO 8601 shape of isoformat\<close>




















section \<open>Elastic IPs: the reconciler\<close>

text \<open>
  Claim C3. For every address listing the call returns, the reconciler returns, in the
  order of the listing, the records of exactly the addresses whose association
  identifier is missing or the empty string: each such address has its record in the
  output, and each output record is the record of such an address. (In the example
  listing the address with \<^verbatim>\<open>AssociationId\<close> \<^verbatim>\<open>""\<close> is kept and the one with
  \<^verbatim>\<open>"eipassoc-1"\<close> is left out.)
\<close>

theorem find_orphaned_elastic_ips_iff:
assumes "describe_addresses c = Inr response"
    and "Addresses response = Some A"
  shows "\<exists>out. find_orphaned_elastic_ips c r = Inr out
           \<and> out = map (eip_result r)
                   (filter (\<lambda>a. addr_AssociationId a = None \<or> addr_AssociationId a = Some []) A)
           \<and> (\<forall>a \<in> set A. (addr_AssociationId a = None \<or> addr_AssociationId a = Some [])
                              \<longrightarrow> eip_result r a \<in> set out)
           \<and> (\<forall>x \<in> set out. \<exists>a \<in> set A. x = eip_result r a
                              \<and> (addr_AssociationId a = None \<or> addr_AssociationId a = Some []))
           \<and> length out = length (filter (\<lambda>a. \<not> truthy_str (addr_AssociationId a)) A)"
proof -
  have pred: "no_association = (\<lambda>a. addr_AssociationId a = None \<or> addr_AssociationId a = Some [])"
    by (rule ext) (simp add: no_association_def)
  have pred': "(\<lambda>a. \<not> truthy_str (addr_AssociationId a)) = no_association"
    by (rule ext) (auto simp: no_association_def truthy_str_def split: option.splits)
  have "find_orphaned_elastic_ips c r = Inr (map (eip_result r) (filter no_association A))"
    using assms by (simp add: find_orphaned_elastic_ips_eq)
  then show ?thesis
    unfolding pred' unfolding pred by auto
qed

theorem find_orphaned_elastic_ips_iff_witness:
  "find_orphaned_elastic_ips example_client ''us-east-1''
     = Inr [\<lparr>eip_region = ''us-east-1'', allocation_id = ''eipalloc-1'',
             public_ip = ''198.51.100.1'', eip_domain = ''vpc''\<rparr>,
            \<lparr>eip_region = ''us-east-1'', allocation_id = [],
             public_ip = ''198.51.100.3'', eip_domain = ''vpc''\<rparr>]"
proof -
  have h1: "describe_addresses example_client = Inr \<lparr>Addresses = Some example_addresses\<rparr>"
    by (simp add: example_client_def)
  have h2: "Addresses \<lparr>Addresses = Some example_addresses\<rparr> = Some example_addresses"
    by simp
  from find_orphaned_elastic_ips_iff [OF h1 h2, of "''us-east-1''"]
  obtain out where "find_orphaned_elastic_ips example_client ''us-east-1'' = Inr out"
    and "out = map (eip_result ''us-east-1'')
                 (filter (\<lambda>a. addr_AssociationId a = None \<or> addr_AssociationId a = Some [])
                    example_addresses)"
    by blast
  then show ?thesis
    by (simp add: example_addresses_def eip_result_def dict_get_def)
qed

section \<open>Volumes: the reconciler\<close>




section \<open>The reconcilers are functions of their listings\<close>

text \<open>
  Claim C9. Two runs of a reconciler on the same inputs return the same list in the same
  order, and raise the same exception if the call raises. The inputs are the resource
  listing and the usage evidence only: two runs of the security-group reconciler agree
  whenever the group listings agree and the interfaces attach the same set of group
  identifiers, however the listings are paged and whatever else the clients hold; two
  runs of the elastic-IP reconciler agree whenever the address responses agree; two runs
  of the volume reconciler agree whenever the volume listings agree.
\<close>

theorem reconcilers_deterministic:
  "(describe_security_groups c1 = Inr p1 \<and> describe_security_groups c2 = Inr p2
      \<and> sg_listing p1 = sg_listing p2
      \<and> describe_network_interfaces c1 = Inr q1 \<and> describe_network_interfaces c2 = Inr q2
      \<and> used_ids (eni_listing q1) = used_ids (eni_listing q2)
    \<longrightarrow> find_orphaned_security_groups c1 r excl = find_orphaned_security_groups c2 r excl)
   \<and> (describe_addresses c1 = describe_addresses c2
    \<longrightarrow> find_orphaned_elastic_ips c1 r = find_orphaned_elastic_ips c2 r)
   \<and> (describe_volumes c1 = Inr v1 \<and> describe_volumes c2 = Inr v2
      \<and> volume_listing v1 = volume_listing v2
    \<longrightarrow> find_unattached_ebs_volumes c1 r = find_unattached_ebs_volumes c2 r)
   \<and> (describe_security_groups c1 = describe_security_groups c2
      \<and> describe_network_interfaces c1 = describe_network_interfaces c2
    \<longrightarrow> find_orphaned_security_groups c1 r excl = find_orphaned_security_groups c2 r excl)
   \<and> (describe_volumes c1 = describe_volumes c2
    \<longrightarrow> find_unattached_ebs_volumes c1 r = find_unattached_ebs_volumes c2 r)"
  by (simp add: find_orphaned_security_groups_eq find_orphaned_elastic_ips_eq
      find_unattached_ebs_volumes_eq cong: sum.case_cong)

theorem reconcilers_deterministic_witness:
  "find_orphaned_security_groups example_client ''us-east-1'' True
     = find_orphaned_security_groups example_sg_client_repaged ''us-east-1'' True
   \<and> find_orphaned_elastic_ips example_client ''us-east-1''
     = find_orphaned_elastic_ips example_other_client_repaged ''us-east-1''
   \<and> find_unattached_ebs_volumes example_client ''us-east-1''
     = find_unattached_ebs_volumes example_other_client_repaged ''us-east-1''
   \<and> example_client \<noteq> example_sg_client_repaged
   \<and> example_client \<noteq> example_other_client_repaged"
proof -
  have sg: "describe_security_groups example_client = Inr example_sg_pages"
    "describe_security_groups example_sg_client_repaged
       = Inr [\<lparr>SecurityGroups = Some (sg_listing example_sg_pages)\<rparr>]"
    "sg_listing example_sg_pages = sg_listing [\<lparr>SecurityGroups = Some (sg_listing example_sg_pages)\<rparr>]"
    by (simp_all add: example_client_def example_sg_client_repaged_def sg_listing_def dict_get_def)
  have eni: "describe_network_interfaces example_client = Inr example_eni_pages"
    "describe_network_interfaces example_sg_client_repaged
       = Inr (\<lparr>NetworkInterfaces = None\<rparr> # example_eni_pages @ example_eni_pages)"
    "used_ids (eni_listing example_eni_pages)
       = used_ids (eni_listing (\<lparr>NetworkInterfaces = None\<rparr> # example_eni_pages @ example_eni_pages))"
    by (simp_all add: example_client_def example_sg_client_repaged_def eni_listing_def
        dict_get_def used_ids_append used_ids_Nil)
  have addr: "describe_addresses example_client = describe_addresses example_other_client_repaged"
    by (simp add: example_client_def example_other_client_repaged_def)
  have vol: "describe_volumes example_client = Inr example_volume_pages"
    "describe_volumes example_other_client_repaged
       = Inr [\<lparr>Volumes = Some (volume_listing example_volume_pages)\<rparr>]"
    "volume_listing example_volume_pages
       = volume_listing [\<lparr>Volumes = Some (volume_listing example_volume_pages)\<rparr>]"
    by (simp_all add: example_client_def example_other_client_repaged_def volume_listing_def
        dict_get_def)
  have diff: "example_client \<noteq> example_sg_client_repaged"
    "example_client \<noteq> example_other_client_repaged"
    by (simp_all add: example_client_def example_sg_client_repaged_def
        example_other_client_repaged_def)
  from reconcilers_deterministic
         [of example_client example_sg_pages example_sg_client_repaged
             "[\<lparr>SecurityGroups = Some (sg_listing example_sg_pages)\<rparr>]"
             example_eni_pages
             "\<lparr>NetworkInterfaces = None\<rparr> # example_eni_pages @ example_eni_pages"
             "''us-east-1''" True]
       sg eni
  have one: "find_orphaned_security_groups example_client ''us-east-1'' True
     = find_orphaned_security_groups example_sg_client_repaged ''us-east-1'' True"
    by blast
  from reconcilers_deterministic
         [of example_client _ example_other_client_repaged _ _ _ "''us-east-1''" _
             example_volume_pages "[\<lparr>Volumes = Some (volume_listing example_volume_pages)\<rparr>]"]
       addr vol
  have two: "find_orphaned_elastic_ips example_client ''us-east-1''
     = find_orphaned_elastic_ips example_other_client_repaged ''us-east-1''"
    "find_unattached_ebs_volumes example_client ''us-east-1''
     = find_unattached_ebs_volumes example_other_client_repaged ''us-east-1''"
    by blast+
  from one two diff show ?thesis by simp
qed

section \<open>Orchestration: the per-region result and the fleet loop\<close>

lemma session_or_default_Some: "session_or_default (Some s) b = Inr s"
  by (simp add: session_or_default_def)

lemma scan_region_sgs_eq:
  "scan_region_for_orphaned_sgs r excl (Some s) b =
     (case inventory_sgs s excl r of
        Inr out \<Rightarrow> Inr (outcome_of r (inventory_sgs s excl r))
      | Inl e \<Rightarrow> if is_Exception e then Inr (outcome_of r (inventory_sgs s excl r)) else Inl e)"
  by (simp add: scan_region_for_orphaned_sgs_def session_or_default_Some inventory_sgs_def
      outcome_of_def split: sum.splits)

lemma scan_region_eips_eq:
  "scan_region_for_orphaned_eips r (Some s) b =
     (case inventory_eips s r of
        Inr out \<Rightarrow> Inr (outcome_of r (inventory_eips s r))
      | Inl e \<Rightarrow> if is_Exception e then Inr (outcome_of r (inventory_eips s r)) else Inl e)"
  by (simp add: scan_region_for_orphaned_eips_def session_or_default_Some inventory_eips_def
      outcome_of_def split: sum.splits)

lemma scan_region_ebs_eq:
  "scan_region_for_unattached_ebs r (Some s) b =
     (case inventory_ebs s r of
        Inr out \<Rightarrow> Inr (outcome_of r (inventory_ebs s r))
      | Inl e \<Rightarrow> if is_Exception e then Inr (outcome_of r (inventory_ebs s r)) else Inl e)"
  by (simp add: scan_region_for_unattached_ebs_def session_or_default_Some inventory_ebs_def
      outcome_of_def split: sum.splits)

lemma append_each_total:
  "(\<And>x. x \<in> set xs \<Longrightarrow> f x = Inr (g x)) \<Longrightarrow> append_each f xs acc = Inr (acc @ map g xs)"
  by (induction xs arbitrary: acc) simp_all

lemma append_each_Inr:
  "append_each f xs acc = Inr ys \<Longrightarrow>
     \<exists>zs. ys = acc @ zs \<and> length zs = length xs \<and> (\<forall>i < length xs. f (xs ! i) = Inr (zs ! i))"
proof (induction xs arbitrary: acc)
  case Nil
  then show ?case by simp
next
  case (Cons x xs)
  from Cons.prems obtain y where y: "f x = Inr y" and rest: "append_each f xs (acc @ [y]) = Inr ys"
    by (auto split: sum.splits)
  from Cons.IH [OF rest] obtain zs where zs: "ys = (acc @ [y]) @ zs" "length zs = length xs"
    "\<forall>i < length xs. f (xs ! i) = Inr (zs ! i)"
    by blast
  have "\<forall>i < length (x # xs). f ((x # xs) ! i) = Inr ((y # zs) ! i)"
    using y zs(3) by (auto simp: nth_Cons split: nat.splits)
  with zs(1,2) show ?case
    by (intro exI [of _ "y # zs"]) simp
qed

lemma outcome_of_region: "region (outcome_of r a) = r"
  by (simp add: outcome_of_def split: sum.splits)

lemma fleet_total:
  assumes f: "\<And>r. f r = (case attempt r of
                            Inr out \<Rightarrow> Inr (outcome_of r (attempt r))
                          | Inl e \<Rightarrow> if is_Exception e then Inr (outcome_of r (attempt r)) else Inl e)"
    and caught: "\<forall>r \<in> set rs. \<forall>e. attempt r = Inl e \<longrightarrow> is_Exception e"
  shows "append_each f rs [] = Inr (map (\<lambda>r. outcome_of r (attempt r)) rs)"
proof -
  have "f r = Inr (outcome_of r (attempt r))" if "r \<in> set rs" for r
    using caught that by (auto simp: f split: sum.splits)
  from append_each_total [of rs f "\<lambda>r. outcome_of r (attempt r)" "[]", OF this]
  show ?thesis by simp
qed

lemma fleet_Inr:
  assumes f: "\<And>r. f r = (case attempt r of
                            Inr out \<Rightarrow> Inr (outcome_of r (attempt r))
                          | Inl e \<Rightarrow> if is_Exception e then Inr (outcome_of r (attempt r)) else Inl e)"
    and run: "append_each f rs [] = Inr results"
  shows "results = map (\<lambda>r. outcome_of r (attempt r)) rs"
proof -
  from append_each_Inr [OF run] have len: "length results = length rs"
    and each: "\<forall>i < length rs. f (rs ! i) = Inr (results ! i)"
    by auto
  have "results ! i = outcome_of (rs ! i) (attempt (rs ! i))" if "i < length rs" for i
  proof -
    from each that have fi: "f (rs ! i) = Inr (results ! i)" by simp
    show ?thesis
    proof (cases "attempt (rs ! i)")
      case (Inl e)
      with fi show ?thesis by (simp add: f split: if_splits)
    next
      case (Inr out)
      with fi show ?thesis by (simp add: f)
    qed
  qed
  with len show ?thesis
    by (intro nth_equalityI) simp_all
qed

lemma scan_all_regions_eq:
  "scan_all_regions requested excl session b =
     (case session_or_default session b of
        Inl e \<Rightarrow> Inl e
      | Inr s \<Rightarrow> append_each (\<lambda>r. scan_region_for_orphaned_sgs r excl (Some s) b)
                  (scanned_regions requested) [])"
  by (simp add: scan_all_regions_def scanned_regions_def split: sum.splits)

lemma scan_all_regions_eips_eq:
  "scan_all_regions_eips requested session b =
     (case session_or_default session b of
        Inl e \<Rightarrow> Inl e
      | Inr s \<Rightarrow> append_each (\<lambda>r. scan_region_for_orphaned_eips r (Some s) b)
                  (scanned_regions requested) [])"
  by (simp add: scan_all_regions_eips_def scanned_regions_def split: sum.splits)

lemma scan_all_regions_ebs_eq:
  "scan_all_regions_ebs requested session b =
     (case session_or_default session b of
        Inl e \<Rightarrow> Inl e
      | Inr s \<Rightarrow> append_each (\<lambda>r. scan_region_for_unattached_ebs r (Some s) b)
                  (scanned_regions requested) [])"
  by (simp add: scan_all_regions_ebs_def scanned_regions_def split: sum.splits)

lemma scan_all_regions_Inr:
  assumes "scan_all_regions requested excl session b = Inr results"
  obtains s where "session_or_default session b = Inr s"
    "results = map (\<lambda>r. outcome_of r (inventory_sgs s excl r)) (scanned_regions requested)"
proof -
  from assms obtain s where s: "session_or_default session b = Inr s"
    and run: "append_each (\<lambda>r. scan_region_for_orphaned_sgs r excl (Some s) b)
                (scanned_regions requested) [] = Inr results"
    by (auto simp: scan_all_regions_eq split: sum.splits)
  from fleet_Inr [of "\<lambda>r. scan_region_for_orphaned_sgs r excl (Some s) b"
                     "inventory_sgs s excl", OF scan_region_sgs_eq run] s that
  show thesis by blast
qed

lemma scan_all_regions_eips_Inr:
  assumes "scan_all_regions_eips requested session b = Inr results"
  obtains s where "session_or_default session b = Inr s"
    "results = map (\<lambda>r. outcome_of r (inventory_eips s r)) (scanned_regions requested)"
proof -
  from assms obtain s where s: "session_or_default session b = Inr s"
    and run: "append_each (\<lambda>r. scan_region_for_orphaned_eips r (Some s) b)
                (scanned_regions requested) [] = Inr results"
    by (auto simp: scan_all_regions_eips_eq split: sum.splits)
  from fleet_Inr [of "\<lambda>r. scan_region_for_orphaned_eips r (Some s) b"
                     "inventory_eips s", OF scan_region_eips_eq run] s that
  show thesis by blast
qed

lemma scan_all_regions_ebs_Inr:
  assumes "scan_all_regions_ebs requested session b = Inr results"
  obtains s where "session_or_default session b = Inr s"
    "results = map (\<lambda>r. outcome_of r (inventory_ebs s r)) (scanned_regions requested)"
proof -
  from assms obtain s where s: "session_or_default session b = Inr s"
    and run: "append_each (\<lambda>r. scan_region_for_unattached_ebs r (Some s) b)
                (scanned_regions requested) [] = Inr results"
    by (auto simp: scan_all_regions_ebs_eq split: sum.splits)
  from fleet_Inr [of "\<lambda>r. scan_region_for_unattached_ebs r (Some s) b"
                     "inventory_ebs s", OF scan_region_ebs_eq run] s that
  show thesis by blast
qed

lemma scan_all_regions_total:
  assumes "session_or_default session b = Inr s"
    and "\<forall>r \<in> set (scanned_regions requested). \<forall>e. inventory_sgs s excl r = Inl e \<longrightarrow> is_Exception e"
  shows "scan_all_regions requested excl session b
           = Inr (map (\<lambda>r. outcome_of r (inventory_sgs s excl r)) (scanned_regions requested))"
  using fleet_total [of "\<lambda>r. scan_region_for_orphaned_sgs r excl (Some s) b"
                        "inventory_sgs s excl", OF scan_region_sgs_eq assms(2)] assms(1)
  by (simp add: scan_all_regions_eq)

lemma scan_all_regions_eips_total:
  assumes "session_or_default session b = Inr s"
    and "\<forall>r \<in> set (scanned_regions requested). \<forall>e. inventory_eips s r = Inl e \<longrightarrow> is_Exception e"
  shows "scan_all_regions_eips requested session b
           = Inr (map (\<lambda>r. outcome_of r (inventory_eips s r)) (scanned_regions requested))"
  using fleet_total [of "\<lambda>r. scan_region_for_orphaned_eips r (Some s) b"
                        "inventory_eips s", OF scan_region_eips_eq assms(2)] assms(1)
  by (simp add: scan_all_regions_eips_eq)

lemma scan_all_regions_ebs_total:
  assumes "session_or_default session b = Inr s"
    and "\<forall>r \<in> set (scanned_regions requested). \<forall>e. inventory_ebs s r = Inl e \<longrightarrow> is_Exception e"
  shows "scan_all_regions_ebs requested session b
           = Inr (map (\<lambda>r. outcome_of r (inventory_ebs s r)) (scanned_regions requested))"
  using fleet_total [of "\<lambda>r. scan_region_for_unattached_ebs r (Some s) b"
                        "inventory_ebs s", OF scan_region_ebs_eq assms(2)] assms(1)
  by (simp add: scan_all_regions_ebs_eq)

lemma scanned_regions_empty: "scanned_regions (Some []) = REGIONS"
  by (simp add: scanned_regions_def regions_or_REGIONS_def get_regions_REGIONS)

lemma scanned_regions_None: "scanned_regions None = REGIONS"
  by (simp add: scanned_regions_def regions_or_REGIONS_def get_regions_REGIONS)

lemma scanned_regions_nonempty: "rs \<noteq> [] \<Longrightarrow> scanned_regions (Some rs) = get_regions (Some rs)"
  by (simp add: scanned_regions_def regions_or_REGIONS_def)

section \<open>The per-region result is a success or a failure\<close>

text \<open>
  Claim C8. Every result that a per-region orchestrator returns (for security groups,
  elastic IPs or volumes) is for the region asked, and either has no error (a success,
  with a possibly empty list) or has an empty list (a failure): whenever the error field
  is set, the list of resource records is empty.
\<close>

theorem region_outcome_success_or_failure:
"(scan_region_for_orphaned_sgs r excl session b = Inr res
      \<longrightarrow> region res = r
          \<and> (error res = None \<or> orphaned res = [])
          \<and> (error res \<noteq> None \<longrightarrow> orphaned res = []))
   \<and> (scan_region_for_orphaned_eips r session b = Inr res_eip
      \<longrightarrow> region res_eip = r
          \<and> (error res_eip = None \<or> orphaned res_eip = [])
          \<and> (error res_eip \<noteq> None \<longrightarrow> orphaned res_eip = []))
   \<and> (scan_region_for_unattached_ebs r session b = Inr res_ebs
      \<longrightarrow> region res_ebs = r
          \<and> (error res_ebs = None \<or> orphaned res_ebs = [])
          \<and> (error res_ebs \<noteq> None \<longrightarrow> orphaned res_ebs = []))"
proof (intro conjI impI)
  assume "scan_region_for_orphaned_sgs r excl session b = Inr res"
  then have "region res = r \<and> (error res = None \<or> orphaned res = [])"
    by (auto simp: scan_region_for_orphaned_sgs_def split: sum.splits if_splits)
  then show "region res = r" "error res = None \<or> orphaned res = []"
    "error res \<noteq> None \<Longrightarrow> orphaned res = []"
    by auto
next
  assume "scan_region_for_orphaned_eips r session b = Inr res_eip"
  then have "region res_eip = r \<and> (error res_eip = None \<or> orphaned res_eip = [])"
    by (auto simp: scan_region_for_orphaned_eips_def split: sum.splits if_splits)
  then show "region res_eip = r" "error res_eip = None \<or> orphaned res_eip = []"
    "error res_eip \<noteq> None \<Longrightarrow> orphaned res_eip = []"
    by auto
next
  assume "scan_region_for_unattached_ebs r session b = Inr res_ebs"
  then have "region res_ebs = r \<and> (error res_ebs = None \<or> orphaned res_ebs = [])"
    by (auto simp: scan_region_for_unattached_ebs_def split: sum.splits if_splits)
  then show "region res_ebs = r" "error res_ebs = None \<or> orphaned res_ebs = []"
    "error res_ebs \<noteq> None \<Longrightarrow> orphaned res_ebs = []"
    by auto
qed

lemma inventory_sgs_failing:
  "inventory_sgs (session_failing_in bad e) excl bad = Inl e"
  by (simp add: inventory_sgs_def session_failing_in_def failing_client_def
      find_orphaned_security_groups_eq)

theorem region_outcome_success_or_failure_witness:
  "scan_region_for_orphaned_sgs ''eu-west-1'' True
       (Some (session_failing_in ''eu-west-1'' AuthFailure)) no_default_session
     = Inr \<lparr>region = ''eu-west-1'', orphaned = [], error = Some (exn_str AuthFailure)\<rparr>
   \<and> error \<lparr>region = ''eu-west-1'', orphaned = ([] :: OrphanedSGResult list),
            error = Some (exn_str AuthFailure)\<rparr> \<noteq> None
   \<and> orphaned \<lparr>region = ''eu-west-1'', orphaned = ([] :: OrphanedSGResult list),
               error = Some (exn_str AuthFailure)\<rparr> = []"
proof -
  have run: "scan_region_for_orphaned_sgs ''eu-west-1'' True
       (Some (session_failing_in ''eu-west-1'' AuthFailure)) no_default_session
     = Inr \<lparr>region = ''eu-west-1'', orphaned = [], error = Some (exn_str AuthFailure)\<rparr>"
    by (simp add: scan_region_sgs_eq inventory_sgs_failing outcome_of_def is_Exception_def
        AuthFailure_def)
  from region_outcome_success_or_failure
         [of "''eu-west-1''" True "Some (session_failing_in ''eu-west-1'' AuthFailure)"
             no_default_session
             "\<lparr>region = ''eu-west-1'', orphaned = [], error = Some (exn_str AuthFailure)\<rparr>"]
       run
  show ?thesis by simp
qed

section \<open>Fleet scans: which regions are scanned\<close>

lemma inventory_all_empty:
  "inventory_sgs all_empty_session excl r = Inr []"
  "inventory_eips all_empty_session r = Inr []"
  "inventory_ebs all_empty_session r = Inr []"
  by (simp_all add: inventory_sgs_def inventory_eips_def inventory_ebs_def all_empty_session_def
      empty_client_def find_orphaned_security_groups_eq find_orphaned_elastic_ips_eq
      find_unattached_ebs_volumes_eq sg_listing_def volume_listing_def)

lemma scan_all_regions_each:
  assumes "scan_all_regions requested excl session b = Inr results"
    and "session_or_default session b = Inr s"
  shows "\<forall>i < length (scanned_regions requested).
           scan_region_for_orphaned_sgs (scanned_regions requested ! i) excl (Some s) b
             = Inr (results ! i)"
  using assms append_each_Inr [of "\<lambda>r. scan_region_for_orphaned_sgs r excl (Some s) b"
                                 "scanned_regions requested" "[]" results]
  by (auto simp: scan_all_regions_eq)

lemma scan_all_regions_eips_each:
  assumes "scan_all_regions_eips requested session b = Inr results"
    and "session_or_default session b = Inr s"
  shows "\<forall>i < length (scanned_regions requested).
           scan_region_for_orphaned_eips (scanned_regions requested ! i) (Some s) b
             = Inr (results ! i)"
  using assms append_each_Inr [of "\<lambda>r. scan_region_for_orphaned_eips r (Some s) b"
                                 "scanned_regions requested" "[]" results]
  by (auto simp: scan_all_regions_eips_eq)

lemma scan_all_regions_ebs_each:
  assumes "scan_all_regions_ebs requested session b = Inr results"
    and "session_or_default session b = Inr s"
  shows "\<forall>i < length (scanned_regions requested).
           scan_region_for_unattached_ebs (scanned_regions requested ! i) (Some s) b
             = Inr (results ! i)"
  using assms append_each_Inr [of "\<lambda>r. scan_region_for_unattached_ebs r (Some s) b"
                                 "scanned_regions requested" "[]" results]
  by (auto simp: scan_all_regions_ebs_eq)

lemma session_failing_in_caught:
  assumes "is_Exception e"
  shows "inventory_sgs (session_failing_in bad e) excl r = Inl e' \<Longrightarrow> is_Exception e'"
    and "inventory_eips (session_failing_in bad e) r = Inl e' \<Longrightarrow> is_Exception e'"
    and "inventory_ebs (session_failing_in bad e) r = Inl e' \<Longrightarrow> is_Exception e'"
  using assms
  by (auto simp: inventory_sgs_def inventory_eips_def inventory_ebs_def session_failing_in_def
      failing_client_def example_client_def empty_client_def find_orphaned_security_groups_eq
      find_orphaned_elastic_ips_eq find_unattached_ebs_volumes_eq split: if_splits)

lemma inventory_examples:
  "inventory_sgs (session_failing_in ''eu-west-1'' e) True ''us-east-1''
     = Inr [\<lparr>sg_region = ''us-east-1'', group_id = ''sg-2'', group_name = ''web'',
             description = [], vpc_id = None\<rparr>]"
  "inventory_sgs (session_failing_in ''eu-west-1'' e) True ''sa-east-1'' = Inr []"
  "inventory_eips (session_failing_in ''eu-west-1'' e) ''us-east-1''
     = Inr [\<lparr>eip_region = ''us-east-1'', allocation_id = ''eipalloc-1'',
             public_ip = ''198.51.100.1'', eip_domain = ''vpc''\<rparr>,
            \<lparr>eip_region = ''us-east-1'', allocation_id = [],
             public_ip = ''198.51.100.3'', eip_domain = ''vpc''\<rparr>]"
  "inventory_eips (session_failing_in ''eu-west-1'' e) ''eu-west-1'' = Inl e"
  "inventory_ebs (session_failing_in ''eu-west-1'' e) ''us-east-1''
     = Inr (map (ebs_result ''us-east-1'') (volume_listing example_volume_pages))"
  "inventory_ebs (session_failing_in ''eu-west-1'' e) ''eu-west-1'' = Inl e"
  by (simp_all add: inventory_sgs_def inventory_eips_def inventory_ebs_def session_failing_in_def
      failing_client_def example_client_def empty_client_def find_orphaned_security_groups_eq
      find_orphaned_elastic_ips_eq find_unattached_ebs_volumes_eq
      example_sg_pages_def example_eni_pages_def example_addresses_def sg_listing_def
      eni_listing_def used_ids_def attached_group_ids_def sg_is_orphan_def sg_id_def
      sg_name_def sg_result_def eip_result_def no_association_def dict_get_def)

lemma REGIONS_nth:
  "REGIONS ! 0 = ''us-east-1''" "REGIONS ! 14 = ''eu-west-1''" "REGIONS ! 20 = ''sa-east-1''"
  by (simp_all add: REGIONS_def)

text \<open>
  Claim C10. Each of the three fleet scans behaves with the empty list as region subset
  exactly as with no subset: same result, same exception. Whenever it returns, it returns
  21 results, one per region of the full catalog in catalog order, and the i-th result is
  what the per-region orchestrator returns for the i-th catalog region: the success with
  the reconciler's list for that region, or the failure with the exception's text. It
  does return whenever a session is at hand and no region raises something that is not
  an \<^verbatim>\<open>Exception\<close>. The filter \<open>get_regions\<close> of the empty list, in contrast, has no
  element.
\<close>

theorem empty_subset_scans_all:
  "scan_all_regions (Some []) excl session b = scan_all_regions None excl session b
   \<and> scan_all_regions_eips (Some []) session b = scan_all_regions_eips None session b
   \<and> scan_all_regions_ebs (Some []) session b = scan_all_regions_ebs None session b
   \<and> (\<forall>results. scan_all_regions (Some []) excl session b = Inr results
         \<longrightarrow> length results = 21 \<and> map region results = REGIONS
             \<and> (\<exists>s. session_or_default session b = Inr s
                    \<and> results = map (\<lambda>r. outcome_of r (inventory_sgs s excl r)) REGIONS
                    \<and> (\<forall>i < 21. scan_region_for_orphaned_sgs (REGIONS ! i) excl (Some s) b
                                    = Inr (results ! i))))
   \<and> (\<forall>results. scan_all_regions_eips (Some []) session b = Inr results
         \<longrightarrow> length results = 21 \<and> map region results = REGIONS
             \<and> (\<exists>s. session_or_default session b = Inr s
                    \<and> results = map (\<lambda>r. outcome_of r (inventory_eips s r)) REGIONS
                    \<and> (\<forall>i < 21. scan_region_for_orphaned_eips (REGIONS ! i) (Some s) b
                                    = Inr (results ! i))))
   \<and> (\<forall>results. scan_all_regions_ebs (Some []) session b = Inr results
         \<longrightarrow> length results = 21 \<and> map region results = REGIONS
             \<and> (\<exists>s. session_or_default session b = Inr s
                    \<and> results = map (\<lambda>r. outcome_of r (inventory_ebs s r)) REGIONS
                    \<and> (\<forall>i < 21. scan_region_for_unattached_ebs (REGIONS ! i) (Some s) b
                                    = Inr (results ! i))))
   \<and> (session_or_default session b = Inr s
        \<and> (\<forall>r \<in> set REGIONS. \<forall>e. inventory_sgs s excl r = Inl e \<longrightarrow> is_Exception e)
       \<longrightarrow> scan_all_regions (Some []) excl session b
             = Inr (map (\<lambda>r. outcome_of r (inventory_sgs s excl r)) REGIONS))
   \<and> (session_or_default session b = Inr s
        \<and> (\<forall>r \<in> set REGIONS. \<forall>e. inventory_eips s r = Inl e \<longrightarrow> is_Exception e)
       \<longrightarrow> scan_all_regions_eips (Some []) session b
             = Inr (map (\<lambda>r. outcome_of r (inventory_eips s r)) REGIONS))
   \<and> (session_or_default session b = Inr s
        \<and> (\<forall>r \<in> set REGIONS. \<forall>e. inventory_ebs s r = Inl e \<longrightarrow> is_Exception e)
       \<longrightarrow> scan_all_regions_ebs (Some []) session b
             = Inr (map (\<lambda>r. outcome_of r (inventory_ebs s r)) REGIONS))
   \<and> length (get_regions (Some [])) = 0"
proof -
  have same: "scan_all_regions (Some []) excl session b = scan_all_regions None excl session b"
    "scan_all_regions_eips (Some []) session b = scan_all_regions_eips None session b"
    "scan_all_regions_ebs (Some []) session b = scan_all_regions_ebs None session b"
    by (simp_all add: scan_all_regions_eq scan_all_regions_eips_eq scan_all_regions_ebs_eq
        scanned_regions_empty scanned_regions_None split: sum.splits)
  have sg: "length results = 21 \<and> map region results = REGIONS
             \<and> (\<exists>s. session_or_default session b = Inr s
                    \<and> results = map (\<lambda>r. outcome_of r (inventory_sgs s excl r)) REGIONS
                    \<and> (\<forall>i < 21. scan_region_for_orphaned_sgs (REGIONS ! i) excl (Some s) b
                                    = Inr (results ! i)))"
    if run: "scan_all_regions (Some []) excl session b = Inr results" for results
  proof -
    from run obtain s where s: "session_or_default session b = Inr s"
      and eq: "results = map (\<lambda>r. outcome_of r (inventory_sgs s excl r)) REGIONS"
      by (rule scan_all_regions_Inr) (simp add: scanned_regions_empty)
    from scan_all_regions_each [OF run s]
    have each: "\<forall>i < 21. scan_region_for_orphaned_sgs (REGIONS ! i) excl (Some s) b
                            = Inr (results ! i)"
      by (simp add: scanned_regions_empty length_REGIONS)
    from eq have "length results = 21" "map region results = REGIONS"
      by (simp_all add: comp_def outcome_of_region length_REGIONS)
    with s eq each show ?thesis by blast
  qed
  have eip: "length results = 21 \<and> map region results = REGIONS
             \<and> (\<exists>s. session_or_default session b = Inr s
                    \<and> results = map (\<lambda>r. outcome_of r (inventory_eips s r)) REGIONS
                    \<and> (\<forall>i < 21. scan_region_for_orphaned_eips (REGIONS ! i) (Some s) b
                                    = Inr (results ! i)))"
    if run: "scan_all_regions_eips (Some []) session b = Inr results" for results
  proof -
    from run obtain s where s: "session_or_default session b = Inr s"
      and eq: "results = map (\<lambda>r. outcome_of r (inventory_eips s r)) REGIONS"
      by (rule scan_all_regions_eips_Inr) (simp add: scanned_regions_empty)
    from scan_all_regions_eips_each [OF run s]
    have each: "\<forall>i < 21. scan_region_for_orphaned_eips (REGIONS ! i) (Some s) b
                            = Inr (results ! i)"
      by (simp add: scanned_regions_empty length_REGIONS)
    from eq have "length results = 21" "map region results = REGIONS"
      by (simp_all add: comp_def outcome_of_region length_REGIONS)
    with s eq each show ?thesis by blast
  qed
  have ebs: "length results = 21 \<and> map region results = REGIONS
             \<and> (\<exists>s. session_or_default session b = Inr s
                    \<and> results = map (\<lambda>r. outcome_of r (inventory_ebs s r)) REGIONS
                    \<and> (\<forall>i < 21. scan_region_for_unattached_ebs (REGIONS ! i) (Some s) b
                                    = Inr (results ! i)))"
    if run: "scan_all_regions_ebs (Some []) session b = Inr results" for results
  proof -
    from run obtain s where s: "session_or_default session b = Inr s"
      and eq: "results = map (\<lambda>r. outcome_of r (inventory_ebs s r)) REGIONS"
      by (rule scan_all_regions_ebs_Inr) (simp add: scanned_regions_empty)
    from scan_all_regions_ebs_each [OF run s]
    have each: "\<forall>i < 21. scan_region_for_unattached_ebs (REGIONS ! i) (Some s) b
                            = Inr (results ! i)"
      by (simp add: scanned_regions_empty length_REGIONS)
    from eq have "length results = 21" "map region results = REGIONS"
      by (simp_all add: comp_def outcome_of_region length_REGIONS)
    with s eq each show ?thesis by blast
  qed
  have sg_total: "scan_all_regions (Some []) excl session b
             = Inr (map (\<lambda>r. outcome_of r (inventory_sgs s excl r)) REGIONS)"
    if "session_or_default session b = Inr s"
      "\<forall>r \<in> set REGIONS. \<forall>e. inventory_sgs s excl r = Inl e \<longrightarrow> is_Exception e"
    using scan_all_regions_total [of session b s "Some []" excl] that
    by (simp add: scanned_regions_empty)
  have eip_total: "scan_all_regions_eips (Some []) session b
             = Inr (map (\<lambda>r. outcome_of r (inventory_eips s r)) REGIONS)"
    if "session_or_default session b = Inr s"
      "\<forall>r \<in> set REGIONS. \<forall>e. inventory_eips s r = Inl e \<longrightarrow> is_Exception e"
    using scan_all_regions_eips_total [of session b s "Some []"] that
    by (simp add: scanned_regions_empty)
  have ebs_total: "scan_all_regions_ebs (Some []) session b
             = Inr (map (\<lambda>r. outcome_of r (inventory_ebs s r)) REGIONS)"
    if "session_or_default session b = Inr s"
      "\<forall>r \<in> set REGIONS. \<forall>e. inventory_ebs s r = Inl e \<longrightarrow> is_Exception e"
    using scan_all_regions_ebs_total [of session b s "Some []"] that
    by (simp add: scanned_regions_empty)
  have none: "length (get_regions (Some [])) = 0"
    by (simp add: get_regions_def)
  from same sg eip ebs sg_total eip_total ebs_total none show ?thesis
    by blast
qed

theorem empty_subset_scans_all_witness:
  "scan_all_regions (Some []) True None (Inr (session_failing_in ''eu-west-1'' AuthFailure))
     = scan_all_regions None True None (Inr (session_failing_in ''eu-west-1'' AuthFailure))
   \<and> (\<exists>results.
         scan_all_regions (Some []) True None (Inr (session_failing_in ''eu-west-1'' AuthFailure))
           = Inr results
         \<and> length results = 21
         \<and> results ! 0
             = \<lparr>region = ''us-east-1'',
                orphaned = [\<lparr>sg_region = ''us-east-1'', group_id = ''sg-2'',
                              group_name = ''web'', description = [], vpc_id = None\<rparr>],
                error = None\<rparr>
         \<and> results ! 14
             = \<lparr>region = ''eu-west-1'', orphaned = [], error = Some (exn_str AuthFailure)\<rparr>
         \<and> results ! 20 = \<lparr>region = ''sa-east-1'', orphaned = [], error = None\<rparr>)
   \<and> (\<exists>results.
         scan_all_regions_eips (Some []) None (Inr (session_failing_in ''eu-west-1'' AuthFailure))
           = Inr results
         \<and> length results = 21
         \<and> map allocation_id (orphaned (results ! 0)) = [''eipalloc-1'', []]
         \<and> results ! 14
             = \<lparr>region = ''eu-west-1'', orphaned = [], error = Some (exn_str AuthFailure)\<rparr>)
   \<and> (\<exists>results.
         scan_all_regions_ebs (Some []) None (Inr (session_failing_in ''eu-west-1'' AuthFailure))
           = Inr results
         \<and> length results = 21
         \<and> map volume_id (orphaned (results ! 0)) = [''vol-1'', ''vol-2'', ''vol-3'']
         \<and> results ! 14
             = \<lparr>region = ''eu-west-1'', orphaned = [], error = Some (exn_str AuthFailure)\<rparr>)"
proof -
  let ?s = "session_failing_in ''eu-west-1'' AuthFailure"
  have exc: "is_Exception AuthFailure"
    by (simp add: is_Exception_def AuthFailure_def)
  have s: "session_or_default None (Inr ?s) = Inr ?s"
    by (simp add: session_or_default_def)
  have ok: "\<forall>r \<in> set REGIONS. \<forall>e. inventory_sgs ?s True r = Inl e \<longrightarrow> is_Exception e"
    "\<forall>r \<in> set REGIONS. \<forall>e. inventory_eips ?s r = Inl e \<longrightarrow> is_Exception e"
    "\<forall>r \<in> set REGIONS. \<forall>e. inventory_ebs ?s r = Inl e \<longrightarrow> is_Exception e"
    using session_failing_in_caught [OF exc] by blast+
  note inst = empty_subset_scans_all [of True None "Inr ?s" ?s]
  from inst have same:
    "scan_all_regions (Some []) True None (Inr ?s) = scan_all_regions None True None (Inr ?s)"
    by blast
  from inst s ok(1) have sg: "scan_all_regions (Some []) True None (Inr ?s)
             = Inr (map (\<lambda>r. outcome_of r (inventory_sgs ?s True r)) REGIONS)"
    by blast
  from inst s ok(2) have eip: "scan_all_regions_eips (Some []) None (Inr ?s)
             = Inr (map (\<lambda>r. outcome_of r (inventory_eips ?s r)) REGIONS)"
    by blast
  from inst s ok(3) have ebs: "scan_all_regions_ebs (Some []) None (Inr ?s)
             = Inr (map (\<lambda>r. outcome_of r (inventory_ebs ?s r)) REGIONS)"
    by blast
  have vols: "map volume_id (map (ebs_result ''us-east-1'') (volume_listing example_volume_pages))
                = [''vol-1'', ''vol-2'', ''vol-3'']"
    by (simp add: volume_listing_def example_volume_pages_def ebs_result_def dict_get_def)
  have sg_part: "\<exists>results. scan_all_regions (Some []) True None (Inr ?s) = Inr results
         \<and> length results = 21
         \<and> results ! 0
             = \<lparr>region = ''us-east-1'',
                orphaned = [\<lparr>sg_region = ''us-east-1'', group_id = ''sg-2'',
                              group_name = ''web'', description = [], vpc_id = None\<rparr>],
                error = None\<rparr>
         \<and> results ! 14
             = \<lparr>region = ''eu-west-1'', orphaned = [], error = Some (exn_str AuthFailure)\<rparr>
         \<and> results ! 20 = \<lparr>region = ''sa-east-1'', orphaned = [], error = None\<rparr>"
  proof -
    let ?R = "map (\<lambda>r. outcome_of r (inventory_sgs ?s True r)) REGIONS"
    have f1: "length ?R = 21"
      by (simp add: length_REGIONS)
    have f2: "?R ! 0 = \<lparr>region = ''us-east-1'',
                orphaned = [\<lparr>sg_region = ''us-east-1'', group_id = ''sg-2'',
                              group_name = ''web'', description = [], vpc_id = None\<rparr>],
                error = None\<rparr>"
      by (simp add: length_REGIONS REGIONS_nth inventory_examples outcome_of_def)
    have f3: "?R ! 14
             = \<lparr>region = ''eu-west-1'', orphaned = [], error = Some (exn_str AuthFailure)\<rparr>"
      by (simp add: length_REGIONS REGIONS_nth inventory_sgs_failing outcome_of_def)
    have f4: "?R ! 20 = \<lparr>region = ''sa-east-1'', orphaned = [], error = None\<rparr>"
      by (simp add: length_REGIONS REGIONS_nth inventory_examples outcome_of_def)
    show ?thesis
      by (rule exI [of _ ?R]) (intro conjI sg f1 f2 f3 f4)
  qed
  have eip_part: "\<exists>results. scan_all_regions_eips (Some []) None (Inr ?s) = Inr results
         \<and> length results = 21
         \<and> map allocation_id (orphaned (results ! 0)) = [''eipalloc-1'', []]
         \<and> results ! 14
             = \<lparr>region = ''eu-west-1'', orphaned = [], error = Some (exn_str AuthFailure)\<rparr>"
  proof -
    let ?R = "map (\<lambda>r. outcome_of r (inventory_eips ?s r)) REGIONS"
    have f1: "length ?R = 21"
      by (simp add: length_REGIONS)
    have f2: "map allocation_id (orphaned (?R ! 0)) = [''eipalloc-1'', []]"
      by (simp add: length_REGIONS REGIONS_nth inventory_examples outcome_of_def)
    have f3: "?R ! 14
             = \<lparr>region = ''eu-west-1'', orphaned = [], error = Some (exn_str AuthFailure)\<rparr>"
      by (simp add: length_REGIONS REGIONS_nth inventory_examples outcome_of_def)
    show ?thesis
      by (rule exI [of _ ?R]) (intro conjI eip f1 f2 f3)
  qed
  have ebs_part: "\<exists>results. scan_all_regions_ebs (Some []) None (Inr ?s) = Inr results
         \<and> length results = 21
         \<and> map volume_id (orphaned (results ! 0)) = [''vol-1'', ''vol-2'', ''vol-3'']
         \<and> results ! 14
             = \<lparr>region = ''eu-west-1'', orphaned = [], error = Some (exn_str AuthFailure)\<rparr>"
  proof -
    let ?R = "map (\<lambda>r. outcome_of r (inventory_ebs ?s r)) REGIONS"
    have f1: "length ?R = 21"
      by (simp add: length_REGIONS)
    have f2: "map volume_id (orphaned (?R ! 0)) = [''vol-1'', ''vol-2'', ''vol-3'']"
      using vols by (simp add: length_REGIONS REGIONS_nth inventory_examples outcome_of_def)
    have f3: "?R ! 14
             = \<lparr>region = ''eu-west-1'', orphaned = [], error = Some (exn_str AuthFailure)\<rparr>"
      by (simp add: length_REGIONS REGIONS_nth inventory_examples outcome_of_def)
    show ?thesis
      by (rule exI [of _ ?R]) (intro conjI ebs f1 f2 f3)
  qed
  from same sg_part eip_part ebs_part show ?thesis
    by (intro conjI)
qed

text \<open>
  Claim C5, as stated, fails for the empty requested list: the filter of the empty list
  is empty, yet the fleet scan returns 21 results, because \<^verbatim>\<open>regions or REGIONS\<close> replaces
  the empty list by the catalog before the filter.
\<close>

theorem fleet_scan_empty_request_counterexample:
  "scan_all_regions (Some []) True (Some all_empty_session) no_default_session
     = Inr (map (\<lambda>r. \<lparr>region = r, orphaned = [], error = None\<rparr>) REGIONS)
   \<and> length (map (\<lambda>r. \<lparr>region = r, orphaned = ([] :: OrphanedSGResult list), error = None\<rparr>) REGIONS) = 21
   \<and> get_regions (Some []) = []"
proof -
  have "scan_all_regions (Some []) True (Some all_empty_session) no_default_session
          = Inr (map (\<lambda>r. outcome_of r (inventory_sgs all_empty_session True r))
                   (scanned_regions (Some [])))"
    by (rule scan_all_regions_total) (simp_all add: session_or_default_Some inventory_all_empty)
  then show ?thesis
    by (simp add: scanned_regions_empty inventory_all_empty outcome_of_def length_REGIONS
        get_regions_def)
qed

lemma scanned_regions_cases:
  "scanned_regions requested = (if requested = Some [] then REGIONS else get_regions requested)"
proof (cases requested)
  case None
  then show ?thesis by (simp add: scanned_regions_None get_regions_def)
next
  case (Some rs)
  then show ?thesis by (cases "rs = []") (simp_all add: scanned_regions_empty scanned_regions_nonempty)
qed

text \<open>
  Claim C5, amended. For every requested region list, each of the three fleet scans,
  whenever it returns, returns exactly one result per region of the list it scans,
  \<^verbatim>\<open>get_regions(regions or REGIONS)\<close>, the i-th result being for the i-th region. That list
  is the filtered catalog \<open>get_regions requested\<close> unless the requested list is empty, in
  which case it is the whole catalog. The scan returns whenever a session is at hand and
  no region raises something that is not an \<^verbatim>\<open>Exception\<close>.
\<close>

theorem fleet_scan_one_outcome_per_scanned_region:
  "(\<forall>results. scan_all_regions requested excl session b = Inr results
      \<longrightarrow> length results = length (scanned_regions requested)
          \<and> (\<forall>i < length results. region (results ! i) = scanned_regions requested ! i))
   \<and> (\<forall>results. scan_all_regions_eips requested session b = Inr results
      \<longrightarrow> length results = length (scanned_regions requested)
          \<and> (\<forall>i < length results. region (results ! i) = scanned_regions requested ! i))
   \<and> (\<forall>results. scan_all_regions_ebs requested session b = Inr results
      \<longrightarrow> length results = length (scanned_regions requested)
          \<and> (\<forall>i < length results. region (results ! i) = scanned_regions requested ! i))
   \<and> scanned_regions requested = (if requested = Some [] then REGIONS else get_regions requested)
   \<and> (session_or_default session b = Inr s
        \<and> (\<forall>r \<in> set (scanned_regions requested). \<forall>e. inventory_sgs s excl r = Inl e \<longrightarrow> is_Exception e)
       \<longrightarrow> (\<exists>results. scan_all_regions requested excl session b = Inr results))
   \<and> (session_or_default session b = Inr s
        \<and> (\<forall>r \<in> set (scanned_regions requested). \<forall>e. inventory_eips s r = Inl e \<longrightarrow> is_Exception e)
       \<longrightarrow> (\<exists>results. scan_all_regions_eips requested session b = Inr results))
   \<and> (session_or_default session b = Inr s
        \<and> (\<forall>r \<in> set (scanned_regions requested). \<forall>e. inventory_ebs s r = Inl e \<longrightarrow> is_Exception e)
       \<longrightarrow> (\<exists>results. scan_all_regions_ebs requested session b = Inr results))"
proof -
  have sg: "length results = length (scanned_regions requested)
          \<and> (\<forall>i < length results. region (results ! i) = scanned_regions requested ! i)"
    if "scan_all_regions requested excl session b = Inr results" for results
    using that by (rule scan_all_regions_Inr) (simp add: outcome_of_region)
  have eip: "length results = length (scanned_regions requested)
          \<and> (\<forall>i < length results. region (results ! i) = scanned_regions requested ! i)"
    if "scan_all_regions_eips requested session b = Inr results" for results
    using that by (rule scan_all_regions_eips_Inr) (simp add: outcome_of_region)
  have ebs: "length results = length (scanned_regions requested)
          \<and> (\<forall>i < length results. region (results ! i) = scanned_regions requested ! i)"
    if "scan_all_regions_ebs requested session b = Inr results" for results
    using that by (rule scan_all_regions_ebs_Inr) (simp add: outcome_of_region)
  have sg_total: "\<exists>results. scan_all_regions requested excl session b = Inr results"
    if "session_or_default session b = Inr s"
      "\<forall>r \<in> set (scanned_regions requested). \<forall>e. inventory_sgs s excl r = Inl e \<longrightarrow> is_Exception e"
    using scan_all_regions_total [OF that] by simp
  have eip_total: "\<exists>results. scan_all_regions_eips requested session b = Inr results"
    if "session_or_default session b = Inr s"
      "\<forall>r \<in> set (scanned_regions requested). \<forall>e. inventory_eips s r = Inl e \<longrightarrow> is_Exception e"
    using scan_all_regions_eips_total [OF that] by simp
  have ebs_total: "\<exists>results. scan_all_regions_ebs requested session b = Inr results"
    if "session_or_default session b = Inr s"
      "\<forall>r \<in> set (scanned_regions requested). \<forall>e. inventory_ebs s r = Inl e \<longrightarrow> is_Exception e"
    using scan_all_regions_ebs_total [OF that] by simp
  from sg eip ebs sg_total eip_total ebs_total scanned_regions_cases [of requested]
  show ?thesis by blast
qed

theorem fleet_scan_one_outcome_per_scanned_region_witness:
  "get_regions (Some [''eu-west-1'', ''bogus'', ''us-east-1'', ''eu-west-1''])
     = [''eu-west-1'', ''us-east-1'', ''eu-west-1'']
   \<and> (\<exists>results. scan_all_regions_eips (Some [''eu-west-1'', ''bogus'', ''us-east-1'', ''eu-west-1''])
                    (Some all_empty_session) no_default_session = Inr results
                \<and> length results = 3
                \<and> region (results ! 0) = ''eu-west-1''
                \<and> region (results ! 1) = ''us-east-1''
                \<and> region (results ! 2) = ''eu-west-1'')"
proof -
  let ?req = "Some [''eu-west-1'', ''bogus'', ''us-east-1'', ''eu-west-1'']"
  have g: "get_regions ?req = [''eu-west-1'', ''us-east-1'', ''eu-west-1'']"
    by (simp add: get_regions_def REGIONS_def)
  have ok: "\<forall>r \<in> set (scanned_regions ?req). \<forall>e. inventory_eips all_empty_session r = Inl e \<longrightarrow> is_Exception e"
    by (simp add: inventory_all_empty)
  note inst = fleet_scan_one_outcome_per_scanned_region
               [of ?req True "Some all_empty_session" no_default_session all_empty_session]
  from inst have sr: "scanned_regions ?req = get_regions ?req"
    by simp
  have s: "session_or_default (Some all_empty_session) no_default_session = Inr all_empty_session"
    by (rule session_or_default_Some)
  from inst s ok obtain results where
    run: "scan_all_regions_eips ?req (Some all_empty_session) no_default_session = Inr results"
    by blast
  with inst have "length results = length (scanned_regions ?req)"
    and "\<forall>i < length results. region (results ! i) = scanned_regions ?req ! i"
    by blast+
  with sr g have "length results = 3" "region (results ! 0) = ''eu-west-1''"
    "region (results ! 1) = ''us-east-1''" "region (results ! 2) = ''eu-west-1''"
    by simp_all
  with g run show ?thesis by blast
qed

section \<open>Fleet scans: one failing region\<close>

lemma list_of_length_3: "length xs = 3 \<Longrightarrow> xs = [xs ! 0, xs ! 1, xs ! 2]"
  by (auto simp: length_Suc_conv numeral_3_eq_3)

lemma RegionScanResult_eqI:
  fixes x :: "'a RegionScanResult"
  shows "region x = a \<Longrightarrow> orphaned x = xs \<Longrightarrow> error x = e
           \<Longrightarrow> x = \<lparr>region = a, orphaned = xs, error = e\<rparr>"
  by (cases x) simp

text \<open>
  Claim C2, as stated, fails in two ways, shown on the call the scripts make (no session
  given, the default session constructed). An exception outside \<^verbatim>\<open>Exception\<close> (such as
  \<^verbatim>\<open>KeyboardInterrupt()\<close>, here \<open>Exn BaseExceptionOnly []\<close>) raised by the calls of
  \<^verbatim>\<open>eu-west-1\<close> is not caught by \<^verbatim>\<open>except Exception\<close>: it escapes the per-region orchestrator
  and ends the fleet scan without a result for any region. And an exception whose text is
  empty (such as \<^verbatim>\<open>MemoryError()\<close>, here \<open>Exn OtherException []\<close>) gives that region the error
  message \<^verbatim>\<open>""\<close>, which is not a non-empty message.
\<close>

theorem fleet_scan_failure_counterexample:
  "scan_region_for_orphaned_sgs ''eu-west-1'' True
       (Some (session_failing_in ''eu-west-1'' (Exn BaseExceptionOnly [])))
       (Inr (session_failing_in ''eu-west-1'' (Exn BaseExceptionOnly [])))
     = Inl (Exn BaseExceptionOnly [])
   \<and> scan_all_regions (Some [''us-east-1'', ''eu-west-1'']) True None
       (Inr (session_failing_in ''eu-west-1'' (Exn BaseExceptionOnly [])))
     = Inl (Exn BaseExceptionOnly [])
   \<and> scan_all_regions (Some [''us-east-1'', ''eu-west-1'']) True None
       (Inr (session_failing_in ''eu-west-1'' (Exn OtherException [])))
     = Inr [\<lparr>region = ''us-east-1'',
             orphaned = [\<lparr>sg_region = ''us-east-1'', group_id = ''sg-2'', group_name = ''web'',
                          description = [], vpc_id = None\<rparr>],
             error = None\<rparr>,
            \<lparr>region = ''eu-west-1'', orphaned = [], error = Some []\<rparr>]"
proof -
  have regs: "scanned_regions (Some [''us-east-1'', ''eu-west-1'']) = [''us-east-1'', ''eu-west-1'']"
    by (simp add: scanned_regions_def regions_or_REGIONS_def get_regions_def REGIONS_def)
  show ?thesis
    by (simp add: scan_all_regions_eq session_or_default_def regs scan_region_sgs_eq
        inventory_examples inventory_sgs_failing outcome_of_def is_Exception_def)
qed

text \<open>
  Claim C2, amended. For every list of regions in which the inventory access of exactly
  one scanned region raises an exception that is an instance of \<^verbatim>\<open>Exception\<close> (the others
  raising nothing), the security-group fleet scan, run with a given session or with the
  default one, returns one result per scanned region. Every other region's result is the
  success with the list its reconciler returns. The exception does not escape the
  per-region orchestrator: it returns, for the failing region, a result with no records,
  and so does the fleet scan at each position of that region; when the exception's text
  \<^verbatim>\<open>str(e)\<close> is not empty, that text is the result's error message.
\<close>

theorem fleet_scan_isolates_failure:
  assumes sess: "session_or_default session b = Inr s"
    and bad: "bad \<in> set (scanned_regions requested)"
    and fails: "inventory_sgs s excl bad = Inl e"
    and exc: "is_Exception e"
    and others: "\<forall>r \<in> set (scanned_regions requested). r \<noteq> bad
                   \<longrightarrow> (\<exists>out. inventory_sgs s excl r = Inr out)"
  shows "\<exists>results. scan_all_regions requested excl session b = Inr results
           \<and> length results = length (scanned_regions requested)
           \<and> (\<forall>i < length results. scanned_regions requested ! i \<noteq> bad \<longrightarrow>
                 (\<exists>out. inventory_sgs s excl (scanned_regions requested ! i) = Inr out
                       \<and> results ! i = \<lparr>region = scanned_regions requested ! i,
                                        orphaned = out, error = None\<rparr>))
           \<and> (\<forall>i < length results. scanned_regions requested ! i = bad \<longrightarrow>
                 region (results ! i) = bad \<and> orphaned (results ! i) = []
                 \<and> (exn_str e \<noteq> [] \<longrightarrow> error (results ! i) = Some (exn_str e)))
           \<and> (\<forall>i < length results.
                 scan_region_for_orphaned_sgs (scanned_regions requested ! i) excl (Some s) b
                   = Inr (results ! i))
           \<and> (\<exists>res. scan_region_for_orphaned_sgs bad excl (Some s) b = Inr res
                    \<and> region res = bad \<and> orphaned res = []
                    \<and> (exn_str e \<noteq> [] \<longrightarrow> error res = Some (exn_str e)))"
proof -
  let ?regs = "scanned_regions requested"
  let ?results = "map (\<lambda>r. outcome_of r (inventory_sgs s excl r)) ?regs"
  have caught: "\<forall>r \<in> set ?regs. \<forall>e'. inventory_sgs s excl r = Inl e' \<longrightarrow> is_Exception e'"
    using fails exc others by (metis sum.inject(1) sum.distinct(1))
  have run: "scan_all_regions requested excl session b = Inr ?results"
    using sess caught by (rule scan_all_regions_total)
  have ok: "\<exists>out. inventory_sgs s excl (?regs ! i) = Inr out
                 \<and> ?results ! i = \<lparr>region = ?regs ! i, orphaned = out, error = None\<rparr>"
    if "i < length ?results" "?regs ! i \<noteq> bad" for i
  proof -
    from that have "?regs ! i \<in> set ?regs" by simp
    with others that(2) obtain out where "inventory_sgs s excl (?regs ! i) = Inr out"
      by blast
    with that(1) show ?thesis by (simp add: outcome_of_def)
  qed
  have failed: "region (?results ! i) = bad \<and> orphaned (?results ! i) = []
                 \<and> (exn_str e \<noteq> [] \<longrightarrow> error (?results ! i) = Some (exn_str e))"
    if "i < length ?results" "?regs ! i = bad" for i
    using that fails by (simp add: outcome_of_def)
  have each: "scan_region_for_orphaned_sgs (?regs ! i) excl (Some s) b = Inr (?results ! i)"
    if "i < length ?results" for i
    using scan_all_regions_each [OF run sess] that by simp
  have region_result: "\<exists>res. scan_region_for_orphaned_sgs bad excl (Some s) b = Inr res
                    \<and> region res = bad \<and> orphaned res = []
                    \<and> (exn_str e \<noteq> [] \<longrightarrow> error res = Some (exn_str e))"
    using fails exc by (simp add: scan_region_sgs_eq outcome_of_def)
  have len: "length ?results = length ?regs" by simp
  from run len ok failed each region_result show ?thesis
    by blast
qed

theorem fleet_scan_isolates_failure_witness:
  "scan_all_regions (Some [''us-east-1'', ''eu-west-1'', ''sa-east-1'']) True None
       (Inr (session_failing_in ''eu-west-1'' AuthFailure))
     = Inr [\<lparr>region = ''us-east-1'',
             orphaned = [\<lparr>sg_region = ''us-east-1'', group_id = ''sg-2'', group_name = ''web'',
                          description = [], vpc_id = None\<rparr>],
             error = None\<rparr>,
            \<lparr>region = ''eu-west-1'', orphaned = [], error = Some (exn_str AuthFailure)\<rparr>,
            \<lparr>region = ''sa-east-1'', orphaned = [], error = None\<rparr>]
   \<and> exn_str AuthFailure \<noteq> []"
proof -
  let ?req = "Some [''us-east-1'', ''eu-west-1'', ''sa-east-1'']"
  let ?s = "session_failing_in ''eu-west-1'' AuthFailure"
  have regs: "scanned_regions ?req = [''us-east-1'', ''eu-west-1'', ''sa-east-1'']"
    by (simp add: scanned_regions_def regions_or_REGIONS_def get_regions_def REGIONS_def)
  have h0: "session_or_default None (Inr ?s) = Inr ?s"
    by (simp add: session_or_default_def)
  have h1: "''eu-west-1'' \<in> set (scanned_regions ?req)"
    by (simp add: regs)
  have h2: "inventory_sgs ?s True ''eu-west-1'' = Inl AuthFailure"
    by (rule inventory_sgs_failing)
  have h3: "is_Exception AuthFailure"
    by (simp add: is_Exception_def AuthFailure_def)
  have nonempty: "exn_str AuthFailure \<noteq> []"
    by (simp add: AuthFailure_def)
  have h4: "\<forall>r \<in> set (scanned_regions ?req). r \<noteq> ''eu-west-1''
              \<longrightarrow> (\<exists>out. inventory_sgs ?s True r = Inr out)"
    by (simp add: regs inventory_examples)
  from fleet_scan_isolates_failure [OF h0 h1 h2 h3 h4]
  obtain results where run: "scan_all_regions ?req True None (Inr ?s) = Inr results"
    and len: "length results = length (scanned_regions ?req)"
    and ok: "\<forall>i < length results. scanned_regions ?req ! i \<noteq> ''eu-west-1'' \<longrightarrow>
                 (\<exists>out. inventory_sgs ?s True (scanned_regions ?req ! i) = Inr out
                       \<and> results ! i = \<lparr>region = scanned_regions ?req ! i,
                                        orphaned = out, error = None\<rparr>)"
    and failed: "\<forall>i < length results. scanned_regions ?req ! i = ''eu-west-1'' \<longrightarrow>
                 region (results ! i) = ''eu-west-1'' \<and> orphaned (results ! i) = []
                 \<and> (exn_str AuthFailure \<noteq> []
                      \<longrightarrow> error (results ! i) = Some (exn_str AuthFailure))"
    by blast
  from len regs have l3: "length results = 3" by simp
  from ok [rule_format, of 0] l3
  have "\<exists>out. inventory_sgs ?s True ''us-east-1'' = Inr out
             \<and> results ! 0 = \<lparr>region = ''us-east-1'', orphaned = out, error = None\<rparr>"
    by (simp add: regs)
  then have r0: "results ! 0 = \<lparr>region = ''us-east-1'',
             orphaned = [\<lparr>sg_region = ''us-east-1'', group_id = ''sg-2'', group_name = ''web'',
                          description = [], vpc_id = None\<rparr>],
             error = None\<rparr>"
    by (auto simp: inventory_examples)
  from failed [rule_format, of 1] l3 nonempty
  have "region (results ! 1) = ''eu-west-1''" "orphaned (results ! 1) = []"
    "error (results ! 1) = Some (exn_str AuthFailure)"
    by (simp_all add: regs)
  then have r1: "results ! 1 = \<lparr>region = ''eu-west-1'', orphaned = [],
                                 error = Some (exn_str AuthFailure)\<rparr>"
    by (rule RegionScanResult_eqI)
  from ok [rule_format, of 2] l3
  have "\<exists>out. inventory_sgs ?s True ''sa-east-1'' = Inr out
             \<and> results ! 2 = \<lparr>region = ''sa-east-1'', orphaned = out, error = None\<rparr>"
    by (simp add: regs)
  then have r2: "results ! 2 = \<lparr>region = ''sa-east-1'', orphaned = [], error = None\<rparr>"
    by (auto simp: inventory_examples)
  from list_of_length_3 [OF l3] r0 r1 r2 have "results =
        [\<lparr>region = ''us-east-1'',
             orphaned = [\<lparr>sg_region = ''us-east-1'', group_id = ''sg-2'', group_name = ''web'',
                          description = [], vpc_id = None\<rparr>],
             error = None\<rparr>,
            \<lparr>region = ''eu-west-1'', orphaned = [], error = Some (exn_str AuthFailure)\<rparr>,
            \<lparr>region = ''sa-east-1'', orphaned = [], error = None\<rparr>]"
    by simp
  with run nonempty show ?thesis by simp
qed

end
